theory Spec2Isabelle
  imports Complex_Main
begin

section \<open>Python values and exceptions\<close>

text \<open>
  The embedding follows \<^verbatim>\<open>src/AAG.py\<close> (class \<^verbatim>\<open>AAGCloudSensor\<close>).
  Python floats are modelled as real numbers. Where numpy leaves the reals without
  raising (a NaN or an infinite result) the model stops with the outcome
  \<open>NonFinite\<close>, which is no Python exception, so that nothing is claimed about such
  a run. Every exception the methods can raise is a value of \<open>error\<close>; a method
  returns \<open>Inl e\<close> where Python raises \<open>e\<close>.
\<close>

datatype error =
    KeyError | TypeError | ValueError | IndexError | UnboundLocalError
  | ZeroDivisionError | NonFinite

text \<open>The values a sample dictionary holds.\<close>

datatype pyval =
    PyNone
  | Bool bool
  | Num real
  | Str string
  | Dict "(string \<times> pyval) list"

type_synonym sample = "string \<rightharpoonup> pyval"

section \<open>Regular expressions of the command tables\<close>

text \<open>
  The patterns of the source use a small fragment of Python's \<^verbatim>\<open>re\<close>: literal
  characters, the classes \<^verbatim>\<open>\d \s \w .\<close>, \<^verbatim>\<open>[\d\.\-]\<close> and \<^verbatim>\<open>[\d\.]\<close>, the greedy
  quantifiers \<^verbatim>\<open>+ * {n}\<close> on one class, and capture groups. Replies are taken to be
  ASCII text (the device sends nothing else), so each class is its ASCII part; for
  \<^verbatim>\<open>\s\<close> that is blank, TAB, LF, VT, FF, CR and the separators 0x1C to 0x1F.
\<close>

datatype cclass = Lit char | Digit | Space | Word | AnyChar | DigDotDash | DigDot

datatype rx = One cclass | Rep nat "nat option" cclass | GOpen | GClose

definition digit_chars :: string where
  "digit_chars = ''0123456789''"

definition space_chars :: string where
  "space_chars = [CHR '' '', CHR 0x09, CHR 0x0A, CHR 0x0B, CHR 0x0C, CHR 0x0D,
                  CHR 0x1C, CHR 0x1D, CHR 0x1E, CHR 0x1F]"

definition word_chars :: string where
  "word_chars = ''abcdefghijklmnopqrstuvwxyzABCDEFGHIJKLMNOPQRSTUVWXYZ0123456789_''"

fun in_class :: "cclass \<Rightarrow> char \<Rightarrow> bool" where
  "in_class (Lit c) x = (x = c)"
| "in_class Digit x = (x \<in> set digit_chars)"
| "in_class Space x = (x \<in> set space_chars)"
| "in_class Word x = (x \<in> set word_chars)"
| "in_class AnyChar x = (x \<noteq> CHR 0x0A)"
| "in_class DigDotDash x = (x \<in> set digit_chars \<or> x = CHR ''.'' \<or> x = CHR ''-'')"
| "in_class DigDot x = (x \<in> set digit_chars \<or> x = CHR ''.'')"

text \<open>
  \<open>rx_match p s\<close> is \<^verbatim>\<open>re.match(p, s)\<close>: the pattern must match at the start of \<open>s\<close>
  and may leave a rest. A greedy quantifier takes the longest repetition first and
  gives back one character at a time: \<open>rx_rep r lo k s\<close> tries the rest \<open>r\<close> of the
  pattern after \<open>k, k - 1, \<dots>, lo\<close> characters of \<open>s\<close>. The result lists what is left of
  the input at each group bracket, in pattern order; \<open>groups_of\<close> turns the brackets
  into the captured texts (\<^verbatim>\<open>MatchObject.groups()\<close>).
\<close>

function rx_match :: "rx list \<Rightarrow> string \<Rightarrow> string list option"
  and rx_rep :: "rx list \<Rightarrow> nat \<Rightarrow> nat \<Rightarrow> string \<Rightarrow> string list option" where
  "rx_match [] s = Some []"
| "rx_match (GOpen # r) s = map_option ((#) s) (rx_match r s)"
| "rx_match (GClose # r) s = map_option ((#) s) (rx_match r s)"
| "rx_match (One c # r) s =
     (case s of [] \<Rightarrow> None
      | x # xs \<Rightarrow> if in_class c x then rx_match r xs else None)"
| "rx_match (Rep lo hi c # r) s =
     (let m = length (takeWhile (in_class c) s)
      in rx_rep r lo (case hi of None \<Rightarrow> m | Some h \<Rightarrow> min h m) s)"
| "rx_rep r lo 0 s = (if lo = 0 then rx_match r s else None)"
| "rx_rep r lo (Suc k) s =
     (if Suc k < lo then None
      else (case rx_match r (drop (Suc k) s) of
              Some g \<Rightarrow> Some g
            | None \<Rightarrow> rx_rep r lo k s))"
  by pat_completeness auto
termination
  by (relation "measures [\<lambda>x. case x of Inl (p, s) \<Rightarrow> length p | Inr (r, lo, k, s) \<Rightarrow> length r,
                          \<lambda>x. case x of Inl (p, s) \<Rightarrow> 0 | Inr (r, lo, k, s) \<Rightarrow> Suc k]") auto

fun groups_of :: "string list \<Rightarrow> string list" where
  "groups_of (a # b # rest) = take (length a - length b) a # groups_of rest"
| "groups_of _ = []"

definition re_match :: "rx list \<Rightarrow> string \<Rightarrow> string list option" where
  "re_match p s = map_option groups_of (rx_match p s)"

definition lit :: "string \<Rightarrow> rx list" where
  "lit s = map (\<lambda>c. One (Lit c)) s"

definition plus :: "cclass \<Rightarrow> rx" where
  "plus c = Rep 1 None c"

definition star :: "cclass \<Rightarrow> rx" where
  "star c = Rep 0 None c"

definition times :: "nat \<Rightarrow> cclass \<Rightarrow> rx" where
  "times n c = Rep n (Some n) c"

text \<open>A capture group around one quantified class, as in \<^verbatim>\<open>([\d\.\-]+)\<close>.\<close>

definition grp :: "rx list \<Rightarrow> rx list" where
  "grp p = GOpen # p @ [GClose]"

section \<open>The command tables\<close>

text \<open>
  The keys of \<^verbatim>\<open>self.commands\<close>, in the order of the dictionary literal. The same
  strings key \<^verbatim>\<open>self.expects\<close> and \<^verbatim>\<open>self.delays\<close>, so a key is a constructor here
  and each table a function on keys.
\<close>

datatype cmd =
    Cmd_A | Cmd_B | Cmd_C | Cmd_D | Cmd_E | Cmd_F | Cmd_G | Cmd_H | Cmd_Pdddd
  | Cmd_Q | Cmd_S | Cmd_T | Cmd_z | Cmd_K | Cmd_v | Cmd_V | Cmd_M | Cmd_Pxxxx

definition commands :: "cmd list" where
  "commands = [Cmd_A, Cmd_B, Cmd_C, Cmd_D, Cmd_E, Cmd_F, Cmd_G, Cmd_H, Cmd_Pdddd,
               Cmd_Q, Cmd_S, Cmd_T, Cmd_z, Cmd_K, Cmd_v, Cmd_V, Cmd_M, Cmd_Pxxxx]"

text \<open>The key itself, as the pattern \<^verbatim>\<open>re.match(cmd, send)\<close> reads it.\<close>

fun key :: "cmd \<Rightarrow> rx list" where
  "key Cmd_A = lit ''!A''"
| "key Cmd_B = lit ''!B''"
| "key Cmd_C = lit ''!C''"
| "key Cmd_D = lit ''!D''"
| "key Cmd_E = lit ''!E''"
| "key Cmd_F = lit ''!F''"
| "key Cmd_G = lit ''!G''"
| "key Cmd_H = lit ''!H''"
| "key Cmd_Pdddd = lit ''P'' @ [One Digit, One Digit, One Digit, One Digit] @ lit ''!''"
| "key Cmd_Q = lit ''!Q''"
| "key Cmd_S = lit ''!S''"
| "key Cmd_T = lit ''!T''"
| "key Cmd_z = lit ''!z''"
| "key Cmd_K = lit ''!K''"
| "key Cmd_v = lit ''v!''"
| "key Cmd_V = lit ''V!''"
| "key Cmd_M = lit ''M!''"
| "key Cmd_Pxxxx = lit ''!Pxxxx''"

definition num_field :: "rx list" where
  "num_field = plus Space # grp [plus DigDotDash]"

definition err_field :: "rx list" where
  "err_field = plus Space # grp [plus DigDot]"

text \<open>\<^verbatim>\<open>self.expects\<close>: four keys of \<^verbatim>\<open>self.commands\<close> have no entry.\<close>

fun expects :: "cmd \<Rightarrow> rx list option" where
  "expects Cmd_A = Some (lit ''!N'' @ plus Space # grp [plus Word] @ lit ''!'')"
| "expects Cmd_B = Some (lit ''!V'' @ num_field @ lit ''!'')"
| "expects Cmd_C =
     Some (lit ''!6'' @ num_field @ lit ''!4'' @ num_field @ lit ''!5'' @ num_field @ lit ''!'')"
| "expects Cmd_D =
     Some (lit ''!E1'' @ err_field @ lit ''!E2'' @ err_field @ lit ''!E3'' @ err_field
           @ lit ''!E4'' @ err_field @ lit ''!'')"
| "expects Cmd_E = Some (lit ''!R'' @ num_field @ lit ''!'')"
| "expects Cmd_F = Some (lit ''!Y'' @ num_field @ lit ''!'')"
| "expects Cmd_Pdddd = Some (lit ''!Q'' @ num_field @ lit ''!'')"
| "expects Cmd_Q = Some (lit ''!Q'' @ num_field @ lit ''!'')"
| "expects Cmd_S = Some (lit ''!1'' @ num_field @ lit ''!'')"
| "expects Cmd_T = Some (lit ''!2'' @ num_field @ lit ''!'')"
| "expects Cmd_K =
     Some (lit ''!K'' @ grp [plus Digit] @ [star Space, One (Lit (CHR 0x00))] @ lit ''!'')"
| "expects Cmd_v = Some (lit ''!v'' @ num_field @ lit ''!'')"
| "expects Cmd_V = Some (lit ''!w'' @ num_field @ lit ''!'')"
| "expects Cmd_M = Some (lit ''!M'' @ grp [times 12 AnyChar])"
| "expects _ = None"

text \<open>\<^verbatim>\<open>self.delays\<close>, in seconds.\<close>

fun delays :: "cmd \<Rightarrow> real option" where
  "delays Cmd_E = Some 0.350"
| "delays Cmd_Pdddd = Some 0.750"
| "delays _ = None"

text \<open>
  The loop \<^verbatim>\<open>for cmd in self.commands.keys(): if re.match(cmd, send): ... break\<close>:
  the first key that matches the request, or \<open>None\<close> when \<^verbatim>\<open>found_command\<close> stays
  false.
\<close>

fun find_command :: "cmd list \<Rightarrow> string \<Rightarrow> cmd option" where
  "find_command [] req = None"
| "find_command (c # cs) req =
     (if re_match (key c) req \<noteq> None then Some c else find_command cs req)"

section \<open>The serial channel\<close>

text \<open>
  The sensor is a device that answers what is written to it: \<open>dev k req\<close> is the text
  that \<^verbatim>\<open>self.AAG.read(self.AAG.inWaiting())\<close> returns after the settle delay, when
  \<open>req\<close> is the \<open>k\<close>-th request written. The state of the channel is the number of
  requests written and the trace of writes and sleeps, latest first.
\<close>

type_synonym device = "nat \<Rightarrow> string \<Rightarrow> string"

datatype event = Write string | Sleep real

record io =
  writes :: nat
  trace :: "event list"

text \<open>A device whose answer depends on the request alone.\<close>

definition steady :: "(string \<Rightarrow> string) \<Rightarrow> device" where
  "steady g k req = g req"

definition io0 :: io where
  "io0 = \<lparr>writes = 0, trace = []\<rparr>"

text \<open>\<^verbatim>\<open>self.hibernate\<close>: the time to wait after a failed query, in seconds.\<close>

definition hibernate :: real where
  "hibernate = 0.500"

text \<open>The trailer of a framed reply, \<^verbatim>\<open>'(!.*)\\x11\s{12}0'\<close>.\<close>

definition frame_rx :: "rx list" where
  "frame_rx = grp (lit ''!'' @ [star AnyChar]) @ [One (Lit (CHR 0x11)), times 12 Space]
              @ lit ''0''"

text \<open>
  \<^verbatim>\<open>send(send, delay)\<close>: \<open>None\<close> for a request that matches no command (nothing is
  written), else the reply, cut before the trailer if it has one (\<open>strip_frame\<close>).
\<close>

definition strip_frame :: "string \<Rightarrow> string" where
  "strip_frame response =
     (case re_match frame_rx response of Some (g # gs) \<Rightarrow> g | _ \<Rightarrow> response)"

definition send :: "device \<Rightarrow> io \<Rightarrow> string \<Rightarrow> real \<Rightarrow> string option \<times> io" where
  "send dev s req delay =
     (case find_command commands req of
        None \<Rightarrow> (None, s)
      | Some cmd \<Rightarrow>
          (let response = dev (writes s) req
           in (Some (strip_frame response),
               \<lparr>writes = Suc (writes s), trace = Sleep delay # Write req # trace s\<rparr>)))"

text \<open>Python's truth value of a query result: \<^verbatim>\<open>None\<close> and the empty tuple are false.\<close>

fun truthy :: "string list option \<Rightarrow> bool" where
  "truthy None = False"
| "truthy (Some []) = False"
| "truthy (Some (g # gs)) = True"

text \<open>
  The loop of \<^verbatim>\<open>query\<close>:
  \<^verbatim>\<open>while not result and (count <= maxtries): count += 1; result = self.send(...); ...\<close>
\<close>

function query_loop ::
  "device \<Rightarrow> string \<Rightarrow> real \<Rightarrow> rx list \<Rightarrow> int \<Rightarrow> int \<Rightarrow> string list option \<Rightarrow> io
   \<Rightarrow> (error + string list option) \<times> io" where
  "query_loop dev req delay expect maxtries count result s =
     (if \<not> truthy result \<and> count \<le> maxtries then
        (case send dev s req delay of
           (None, s1) \<Rightarrow> (Inl TypeError, s1)
         | (Some text, s1) \<Rightarrow>
             (case re_match expect text of
                None \<Rightarrow>
                  query_loop dev req delay expect maxtries (count + 1) None
                    (s1\<lparr>trace := Sleep hibernate # trace s1\<rparr>)
              | Some gs \<Rightarrow>
                  query_loop dev req delay expect maxtries (count + 1) (Some gs) s1))
      else (Inr result, s))"
  by pat_completeness auto
termination
  by (relation "measure (\<lambda>(dev, req, delay, expect, maxtries, count, result, s).
        nat (maxtries + 1 - count))") auto

declare query_loop.simps [simp del]

text \<open>
  \<^verbatim>\<open>query(send, maxtries=5)\<close>. An unknown request returns \<^verbatim>\<open>None\<close> after a warning;
  \<^verbatim>\<open>self.expects[cmd]\<close> raises \<^verbatim>\<open>KeyError\<close> for a key without an entry.
\<close>

definition query :: "device \<Rightarrow> io \<Rightarrow> string \<Rightarrow> int \<Rightarrow> (error + string list option) \<times> io" where
  "query dev s req maxtries =
     (case find_command commands req of
        None \<Rightarrow> (Inr None, s)
      | Some cmd \<Rightarrow>
          (let delay = (case delays cmd of Some d \<Rightarrow> d | None \<Rightarrow> 0.200)
           in (case expects cmd of
                 None \<Rightarrow> (Inl KeyError, s)
               | Some expect \<Rightarrow> query_loop dev req delay expect maxtries 0 None s)))"

text \<open>The default \<^verbatim>\<open>maxtries=5\<close>, which every caller in the class uses.\<close>

abbreviation query5 :: "device \<Rightarrow> io \<Rightarrow> string \<Rightarrow> (error + string list option) \<times> io" where
  "query5 dev s req \<equiv> query dev s req 5"

text \<open>The settle delay \<^verbatim>\<open>query\<close> passes to \<^verbatim>\<open>send\<close>, in seconds.\<close>

definition delay_of :: "cmd \<Rightarrow> real" where
  "delay_of cmd = (case delays cmd of Some d \<Rightarrow> d | None \<Rightarrow> 0.200)"

section \<open>Reading and writing numbers\<close>

definition digit_val :: "char \<Rightarrow> nat" where
  "digit_val c = of_char c - of_char (CHR ''0'')"

definition nat_of_digits :: "string \<Rightarrow> nat" where
  "nat_of_digits ds = foldl (\<lambda>a c. 10 * a + digit_val c) 0 ds"

definition is_digit :: "char \<Rightarrow> bool" where
  "is_digit c = (c \<in> set digit_chars)"

text \<open>
  \<^verbatim>\<open>float(s)\<close> on the texts the reply patterns can capture and that \<^verbatim>\<open>format\<close>
  writes: an optional sign, then digits with at most one point and at least one digit.
  \<open>None\<close> is \<^verbatim>\<open>ValueError\<close>. (Python also reads exponents, blanks around the number,
  underscores and the words inf and nan; none of them can be captured by
  \<^verbatim>\<open>[\d\.\-]+\<close>.)
\<close>

definition py_float :: "string \<Rightarrow> real option" where
  "py_float s =
     (let neg = (case s of c # r \<Rightarrow> c = CHR ''-'' | [] \<Rightarrow> False);
          b = (case s of c # r \<Rightarrow> if c = CHR ''-'' \<or> c = CHR ''+'' then r else s | [] \<Rightarrow> s);
          ip = takeWhile is_digit b;
          rest = dropWhile is_digit b;
          sg = (if neg then - 1 else 1)
      in (case rest of
            [] \<Rightarrow> if ip = [] then None else Some (sg * real (nat_of_digits ip))
          | c # fp \<Rightarrow>
              if c = CHR ''.'' \<and> list_all is_digit fp \<and> \<not> (ip = [] \<and> fp = [])
              then Some (sg * (real (nat_of_digits ip)
                               + real (nat_of_digits fp) / 10 ^ length fp))
              else None))"

text \<open>\<^verbatim>\<open>int(s)\<close> on a text of digits and points: \<open>None\<close> is \<^verbatim>\<open>ValueError\<close>.\<close>

definition py_int :: "string \<Rightarrow> nat option" where
  "py_int s = (if s = [] then None
               else if list_all is_digit s then Some (nat_of_digits s) else None)"

definition digit_char :: "nat \<Rightarrow> char" where
  "digit_char d = digit_chars ! d"

text \<open>\<^verbatim>\<open>str(n)\<close> for a natural number.\<close>

fun str_of_nat :: "nat \<Rightarrow> string" where
  "str_of_nat n =
     (if n < 10 then [digit_char n] else str_of_nat (n div 10) @ [digit_char (n mod 10)])"

declare str_of_nat.simps [simp del]

text \<open>\<^verbatim>\<open>'{:04d}'.format(n)\<close> for a natural number: zeros in front up to four digits.\<close>

definition fmt_04d :: "nat \<Rightarrow> string" where
  "fmt_04d n = replicate (4 - length (str_of_nat n)) (CHR ''0'') @ str_of_nat n"

text \<open>\<^verbatim>\<open>int(x)\<close> for a float: the fraction is cut off, towards zero.\<close>

definition trunc :: "real \<Rightarrow> int" where
  "trunc x = (if 0 \<le> x then \<lfloor>x\<rfloor> else \<lceil>x\<rceil>)"

text \<open>Rounding to the nearest integer, a tie to the even one.\<close>

definition round_half_even :: "real \<Rightarrow> int" where
  "round_half_even y =
     (let f = \<lfloor>y\<rfloor>; d = y - of_int f
      in if d < 1 / 2 then f else if 1 / 2 < d then f + 1
         else if even f then f else f + 1)"

text \<open>\<^verbatim>\<open>"{:.02f}".format(x)\<close>: the sign, the integer part, a point and two decimals.\<close>

definition fmt_02f :: "real \<Rightarrow> string" where
  "fmt_02f x =
     (let h = nat (round_half_even (\<bar>x\<bar> * 100));
          frac = str_of_nat (h mod 100)
      in (if x < 0 then ''-'' else '''') @ str_of_nat (h div 100) @ ''.''
         @ replicate (2 - length frac) (CHR ''0'') @ frac)"

section \<open>Aggregated readings\<close>

text \<open>
  \<^verbatim>\<open>np.median\<close> of a list that is not empty: the middle of the sorted values, or the
  mean of the two in the middle.
\<close>

definition np_median :: "real list \<Rightarrow> real" where
  "np_median xs =
     (let s = sort xs; m = length xs
      in if even m then (s ! (m div 2 - 1) + s ! (m div 2)) / 2 else s ! (m div 2))"

text \<open>
  The end of every aggregated reading:
  \<^verbatim>\<open>if len(values) >= k: result = np.median(values) else: result = None\<close>,
  with the threshold \<open>k\<close> an integer. \<^verbatim>\<open>np.median([])\<close> is NaN.
\<close>

definition median_if :: "int \<Rightarrow> real list \<Rightarrow> error + real option" where
  "median_if k values =
     (if k \<le> int (length values)
      then (if values = [] then Inl NonFinite else Inr (Some (np_median values)))
      else Inr None)"

text \<open>
  \<^verbatim>\<open>for i in range(0, n)\<close> around one attempt that either appends a value or does not:
  the values in the order of the attempts.
\<close>

fun collect :: "(io \<Rightarrow> 'a option \<times> io) \<Rightarrow> nat \<Rightarrow> io \<Rightarrow> 'a list \<times> io" where
  "collect f 0 s = ([], s)"
| "collect f (Suc n) s =
     (case f s of (r, s1) \<Rightarrow>
        (case collect f n s1 of (vs, s2) \<Rightarrow>
           ((case r of None \<Rightarrow> vs | Some v \<Rightarrow> v # vs), s2)))"

text \<open>
  \<^verbatim>\<open>float(self.query(req)[0])\<close> inside \<^verbatim>\<open>try: ... except: pass\<close>: every exception
  (a query that returned \<^verbatim>\<open>None\<close>, a text that is no number) is swallowed.
\<close>

definition query_float :: "device \<Rightarrow> string \<Rightarrow> io \<Rightarrow> real option \<times> io" where
  "query_float dev req s =
     (case query5 dev s req of
        (Inr (Some (g # gs)), s1) \<Rightarrow> (py_float g, s1)
      | (_, s1) \<Rightarrow> (None, s1))"

text \<open>\<^verbatim>\<open>get_ambient_temperature(n=5)\<close>: one attempt, then the method.\<close>

definition ambient_attempt :: "device \<Rightarrow> io \<Rightarrow> real option \<times> io" where
  "ambient_attempt dev s =
     (case query_float dev ''!T'' s of (r, s1) \<Rightarrow> (map_option (\<lambda>value. value / 100) r, s1))"

definition get_ambient_temperature :: "device \<Rightarrow> nat \<Rightarrow> io \<Rightarrow> (error + real option) \<times> io" where
  "get_ambient_temperature dev n s =
     (case collect (ambient_attempt dev) n s of
        (values, s1) \<Rightarrow> (median_if (int n - 1) values, s1))"

text \<open>\<^verbatim>\<open>get_sky_temperature(n=9)\<close>.\<close>

definition sky_attempt :: "device \<Rightarrow> io \<Rightarrow> real option \<times> io" where
  "sky_attempt dev s =
     (case query_float dev ''!S'' s of (r, s1) \<Rightarrow> (map_option (\<lambda>value. value / 100) r, s1))"

definition get_sky_temperature :: "device \<Rightarrow> nat \<Rightarrow> io \<Rightarrow> (error + real option) \<times> io" where
  "get_sky_temperature dev n s =
     (case collect (sky_attempt dev) n s of
        (values, s1) \<Rightarrow> (median_if (int n - 1) values, s1))"

text \<open>\<^verbatim>\<open>get_rain_frequency(n=5)\<close>.\<close>

definition get_rain_frequency :: "device \<Rightarrow> nat \<Rightarrow> io \<Rightarrow> (error + real option) \<times> io" where
  "get_rain_frequency dev n s =
     (case collect (query_float dev ''!E'') n s of
        (values, s1) \<Rightarrow> (median_if (int n - 1) values, s1))"

text \<open>
  \<^verbatim>\<open>get_values(n=5)\<close>. The three conversions of one reply stand in one \<^verbatim>\<open>try\<close>
  block, each followed by its \<^verbatim>\<open>append\<close>: a conversion that raises keeps what was
  appended before it. Division by a float zero raises \<^verbatim>\<open>ZeroDivisionError\<close>, which
  the \<^verbatim>\<open>except\<close> swallows; \<^verbatim>\<open>np.log\<close> of a negative number is NaN and raises nothing,
  and so does a division of a float by a numpy zero.
\<close>

definition conv_voltage :: "string list \<Rightarrow> real option" where
  "conv_voltage responses =
     (case responses of
        [] \<Rightarrow> None
      | r0 # rest \<Rightarrow>
          (case py_float r0 of
             None \<Rightarrow> None
           | Some x \<Rightarrow> if x = 0 then None else Some (1023 * 3 / x)))"

definition conv_ldr :: "string list \<Rightarrow> real option" where
  "conv_ldr responses =
     (case drop 1 responses of
        [] \<Rightarrow> None
      | r1 # rest \<Rightarrow>
          (case py_float r1 of
             None \<Rightarrow> None
           | Some x \<Rightarrow>
               if x = 0 then None
               else if 1023 / x - 1 = 0 then None
               else Some (56 / (1023 / x - 1))))"

definition conv_rain :: "string list \<Rightarrow> error + real option" where
  "conv_rain responses =
     (case drop 2 responses of
        [] \<Rightarrow> Inr None
      | r2 # rest \<Rightarrow>
          (case py_float r2 of
             None \<Rightarrow> Inr None
           | Some x \<Rightarrow>
               if x = 0 then Inr None
               else if 1023 / x - 1 = 0 then Inr None
               else
                 (let a = (1 / (1023 / x - 1)) / 1
                  in if a < 0 then Inl NonFinite
                     else
                       (let r = ln a; d = r / 3450 + 1 / (273.15 + 25)
                        in if d = 0 then Inl NonFinite
                           else Inr (Some (1 / d - 273.15))))))"

text \<open>What one reply adds to the three lists.\<close>

definition values_attempt ::
  "string list option \<Rightarrow> error + (real option \<times> real option \<times> real option)" where
  "values_attempt responses =
     (case responses of
        None \<Rightarrow> Inr (None, None, None)
      | Some rs \<Rightarrow>
          (case conv_voltage rs of
             None \<Rightarrow> Inr (None, None, None)
           | Some v \<Rightarrow>
               (case conv_ldr rs of
                  None \<Rightarrow> Inr (Some v, None, None)
                | Some l \<Rightarrow>
                    (case conv_rain rs of
                       Inl e \<Rightarrow> Inl e
                     | Inr t \<Rightarrow> Inr (Some v, Some l, t)))))"

definition push :: "'a option \<Rightarrow> 'a list \<Rightarrow> 'a list" where
  "push r vs = (case r of None \<Rightarrow> vs | Some v \<Rightarrow> v # vs)"

fun values_loop ::
  "device \<Rightarrow> nat \<Rightarrow> io \<Rightarrow> (error + (real list \<times> real list \<times> real list)) \<times> io" where
  "values_loop dev 0 s = (Inr ([], [], []), s)"
| "values_loop dev (Suc n) s =
     (case query5 dev s ''!C'' of
        (Inl e, s1) \<Rightarrow> (Inl e, s1)
      | (Inr responses, s1) \<Rightarrow>
          (case values_attempt responses of
             Inl e \<Rightarrow> (Inl e, s1)
           | Inr (v, l, t) \<Rightarrow>
               (case values_loop dev n s1 of
                  (Inl e, s2) \<Rightarrow> (Inl e, s2)
                | (Inr (vs, ls, ts), s2) \<Rightarrow> (Inr (push v vs, push l ls, push t ts), s2))))"

definition get_values ::
  "device \<Rightarrow> nat \<Rightarrow> io \<Rightarrow> (error + (real option \<times> real option \<times> real option)) \<times> io" where
  "get_values dev n s =
     (case values_loop dev n s of
        (Inl e, s1) \<Rightarrow> (Inl e, s1)
      | (Inr (internal_voltages, LDR_resistances, rain_sensor_temps), s1) \<Rightarrow>
          (case median_if (int n - 1) internal_voltages of
             Inl e \<Rightarrow> (Inl e, s1)
           | Inr internal_voltage \<Rightarrow>
               (case median_if (int n - 1) LDR_resistances of
                  Inl e \<Rightarrow> (Inl e, s1)
                | Inr LDR_resistance \<Rightarrow>
                    (case median_if (int n - 1) rain_sensor_temps of
                       Inl e \<Rightarrow> (Inl e, s1)
                     | Inr rain_sensor_temp \<Rightarrow>
                         (Inr (internal_voltage, LDR_resistance, rain_sensor_temp), s1)))))"

text \<open>\<^verbatim>\<open>get_PWM()\<close>: the whole body stands in \<^verbatim>\<open>try: ... except: self.PWM = None\<close>.\<close>

definition get_PWM :: "device \<Rightarrow> io \<Rightarrow> real option \<times> io" where
  "get_PWM dev s =
     (case query_float dev ''!Q'' s of
        (r, s1) \<Rightarrow> (map_option (\<lambda>value. value * 100 / 1023) r, s1))"

text \<open>
  \<^verbatim>\<open>set_PWM(percent, ntries=15)\<close>. The result is \<^verbatim>\<open>self.PWM\<close> as the method leaves
  it, when it returns; \<open>pwm\<close> is \<^verbatim>\<open>self.PWM\<close> on entry. \<^verbatim>\<open>float(result[0])\<close> is not
  guarded and may raise \<^verbatim>\<open>ValueError\<close>.
\<close>

definition send_string :: "real \<Rightarrow> string" where
  "send_string percent = ''P'' @ fmt_04d (nat (trunc (1023 * percent / 100))) @ ''!''"

function set_PWM_loop ::
  "device \<Rightarrow> real \<Rightarrow> int \<Rightarrow> int \<Rightarrow> bool \<Rightarrow> real option \<Rightarrow> io
   \<Rightarrow> (error + real option) \<times> io" where
  "set_PWM_loop dev percent ntries count success pwm s =
     (if \<not> success \<and> count \<le> ntries then
        (case query5 dev s (send_string percent) of
           (Inl e, s1) \<Rightarrow> (Inl e, s1)
         | (Inr result, s1) \<Rightarrow>
             (if truthy result then
                (case py_float (hd (the result)) of
                   None \<Rightarrow> (Inl ValueError, s1)
                 | Some v \<Rightarrow>
                     (let pwm' = v * 100 / 1023
                      in if \<bar>pwm' - percent\<bar> > 5.0
                         then set_PWM_loop dev percent ntries (count + 1) False (Some pwm')
                                (s1\<lparr>trace := Sleep 2 # trace s1\<rparr>)
                         else set_PWM_loop dev percent ntries (count + 1) True (Some pwm') s1))
              else set_PWM_loop dev percent ntries (count + 1) success pwm s1))
      else (Inr pwm, s))"
  by pat_completeness auto
termination
  by (relation "measure (\<lambda>(dev, percent, ntries, count, success, pwm, s).
        nat (ntries + 1 - count))") auto

declare set_PWM_loop.simps [simp del]

definition clamp_percent :: "real \<Rightarrow> real" where
  "clamp_percent percent =
     (let p1 = (if percent < 0 then 0 else percent)
      in if p1 > 100 then 100 else p1)"

definition set_PWM :: "device \<Rightarrow> real \<Rightarrow> int \<Rightarrow> real option \<Rightarrow> io \<Rightarrow> (error + real option) \<times> io" where
  "set_PWM dev percent ntries pwm s =
     set_PWM_loop dev (clamp_percent percent) ntries 0 False pwm s"

text \<open>
  \<^verbatim>\<open>get_errors()\<close>: a dictionary of four decimal texts, or of four \<^verbatim>\<open>None\<close> when the
  query failed. \<^verbatim>\<open>int(response[i])\<close> raises \<^verbatim>\<open>ValueError\<close> on a text with a point.
\<close>

definition error_keys :: "string list" where
  "error_keys = [''error_1'', ''error_2'', ''error_3'', ''error_4'']"

fun error_entries :: "string list \<Rightarrow> string list \<Rightarrow> error + (string \<times> pyval) list" where
  "error_entries [] rs = Inr []"
| "error_entries (k # ks) [] = Inl IndexError"
| "error_entries (k # ks) (r # rs) =
     (case py_int r of
        None \<Rightarrow> Inl ValueError
      | Some n \<Rightarrow>
          (case error_entries ks rs of
             Inl e \<Rightarrow> Inl e
           | Inr es \<Rightarrow> Inr ((k, Str (str_of_nat n)) # es)))"

definition get_errors :: "device \<Rightarrow> io \<Rightarrow> (error + pyval) \<times> io" where
  "get_errors dev s =
     (case query5 dev s ''!D'' of
        (Inl e, s1) \<Rightarrow> (Inl e, s1)
      | (Inr response, s1) \<Rightarrow>
          (if truthy response then
             (case error_entries error_keys (the response) of
                Inl e \<Rightarrow> (Inl e, s1)
              | Inr es \<Rightarrow> (Inr (Dict es), s1))
           else (Inr (Dict (map (\<lambda>k. (k, PyNone)) error_keys)), s1)))"

text \<open>
  \<^verbatim>\<open>wind_speed_enabled()\<close>: \<^verbatim>\<open>bool(self.query('v!')[0])\<close> is the truth value of a
  text, which is true unless the text is empty; any exception gives \<^verbatim>\<open>None\<close>.
\<close>

definition wind_speed_enabled :: "device \<Rightarrow> io \<Rightarrow> bool option \<times> io" where
  "wind_speed_enabled dev s =
     (case query5 dev s ''v!'' of
        (Inr (Some (g # gs)), s1) \<Rightarrow> (Some (g \<noteq> []), s1)
      | (_, s1) \<Rightarrow> (None, s1))"

text \<open>
  \<^verbatim>\<open>get_wind_speed(n=3)\<close>. The loop has no \<^verbatim>\<open>try\<close>: a reply that matches but is no
  number raises \<^verbatim>\<open>ValueError\<close>. The threshold is the literal 3, whatever \<open>n\<close> is.
\<close>

fun wind_loop :: "device \<Rightarrow> nat \<Rightarrow> io \<Rightarrow> (error + real list) \<times> io" where
  "wind_loop dev 0 s = (Inr [], s)"
| "wind_loop dev (Suc n) s =
     (case query5 dev s ''V!'' of
        (Inl e, s1) \<Rightarrow> (Inl e, s1)
      | (Inr result, s1) \<Rightarrow>
          (if truthy result then
             (case py_float (hd (the result)) of
                None \<Rightarrow> (Inl ValueError, s1)
              | Some value \<Rightarrow>
                  (case wind_loop dev n s1 of
                     (Inl e, s2) \<Rightarrow> (Inl e, s2)
                   | (Inr vs, s2) \<Rightarrow> (Inr (value # vs), s2)))
           else wind_loop dev n s1))"

definition get_wind_speed :: "device \<Rightarrow> nat \<Rightarrow> io \<Rightarrow> (error + real option) \<times> io" where
  "get_wind_speed dev n s =
     (case wind_speed_enabled dev s of
        (Some True, s1) \<Rightarrow>
          (case wind_loop dev n s1 of
             (Inl e, s2) \<Rightarrow> (Inl e, s2)
           | (Inr values, s2) \<Rightarrow> (median_if 3 values, s2))
      | (_, s1) \<Rightarrow> (Inr None, s1))"

section \<open>Operations on stored values\<close>

text \<open>
  A sample is a dictionary from field names to values; a historical entry is a
  document with its \<^verbatim>\<open>date\<close> (seconds, UTC) and its \<^verbatim>\<open>data\<close>.
\<close>

record entry =
  date :: real
  data :: sample

definition bind_err :: "error + 'a \<Rightarrow> ('a \<Rightarrow> error + 'b) \<Rightarrow> error + 'b" where
  "bind_err r f = (case r of Inl e \<Rightarrow> Inl e | Inr v \<Rightarrow> f v)"

text \<open>\<^verbatim>\<open>d[k]\<close>: \<^verbatim>\<open>KeyError\<close> for a missing key.\<close>

definition lookup :: "sample \<Rightarrow> string \<Rightarrow> error + pyval" where
  "lookup d k = (case d k of None \<Rightarrow> Inl KeyError | Some v \<Rightarrow> Inr v)"

text \<open>
  A value as an operand of \<^verbatim>\<open>-\<close>, \<^verbatim>\<open>+\<close>, \<^verbatim>\<open><\<close> or \<^verbatim>\<open><=\<close> against a float: a text,
  \<^verbatim>\<open>None\<close> or a dictionary raises \<^verbatim>\<open>TypeError\<close> (Python 3).
\<close>

fun as_num :: "pyval \<Rightarrow> error + real" where
  "as_num (Num r) = Inr r"
| "as_num (Bool b) = Inr (if b then 1 else 0)"
| "as_num _ = Inl TypeError"

text \<open>\<^verbatim>\<open>float(v)\<close>: a text is parsed.\<close>

fun float_of :: "pyval \<Rightarrow> error + real" where
  "float_of (Num r) = Inr r"
| "float_of (Bool b) = Inr (if b then 1 else 0)"
| "float_of (Str s) = (case py_float s of None \<Rightarrow> Inl ValueError | Some r \<Rightarrow> Inr r)"
| "float_of _ = Inl TypeError"

definition py_sub :: "pyval \<Rightarrow> pyval \<Rightarrow> error + real" where
  "py_sub a b = bind_err (as_num a) (\<lambda>x. bind_err (as_num b) (\<lambda>y. Inr (x - y)))"

text \<open>The truth value of a stored value.\<close>

fun py_truth :: "pyval \<Rightarrow> bool" where
  "py_truth PyNone = False"
| "py_truth (Bool b) = b"
| "py_truth (Num r) = (r \<noteq> 0)"
| "py_truth (Str s) = (s \<noteq> [])"
| "py_truth (Dict d) = (d \<noteq> [])"

text \<open>\<^verbatim>\<open>max\<close> and \<^verbatim>\<open>min\<close> of a list of numbers: \<^verbatim>\<open>ValueError\<close> for the empty list.\<close>

fun py_max :: "real list \<Rightarrow> error + real" where
  "py_max [] = Inl ValueError"
| "py_max (x # xs) = Inr (fold max xs x)"

fun py_min :: "real list \<Rightarrow> error + real" where
  "py_min [] = Inl ValueError"
| "py_min (x # xs) = Inr (fold min xs x)"

text \<open>The numbers of a list of stored values, for \<^verbatim>\<open>min\<close> and the comparison after it.\<close>

fun nums :: "pyval list \<Rightarrow> error + real list" where
  "nums [] = Inr []"
| "nums (v # vs) =
     bind_err (as_num v) (\<lambda>x. bind_err (nums vs) (\<lambda>xs. Inr (x # xs)))"

text \<open>
  \<^verbatim>\<open>[x['data'][k] for x in entries if k in x['data'].keys()]\<close>.
\<close>

definition field_values :: "string \<Rightarrow> entry list \<Rightarrow> pyval list" where
  "field_values k entries = List.map_filter (\<lambda>x. data x k) entries"

text \<open>
  \<^verbatim>\<open>find({'date': {'$gt': start, '$lt': end}})\<close> on the stored entries, and the same
  sorted by date, ascending.
\<close>

definition find_between :: "entry list \<Rightarrow> real \<Rightarrow> real \<Rightarrow> entry list" where
  "find_between db start end' = filter (\<lambda>x. start < date x \<and> date x < end') db"

definition find_sorted :: "entry list \<Rightarrow> real \<Rightarrow> real \<Rightarrow> entry list" where
  "find_sorted db start end' = sort_key date (find_between db start end')"

section \<open>The heater\<close>

text \<open>
  \<^verbatim>\<open>AAG_heater_algorithm(target, last_entry)\<close>. \<open>heater_table\<close> is the chain of
  \<^verbatim>\<open>if\<close>/\<^verbatim>\<open>elif\<close> on \<^verbatim>\<open>deltaT\<close>: \<open>None\<close> when no branch assigns \<^verbatim>\<open>deltaPWM\<close>, so that
  \<^verbatim>\<open>return int(deltaPWM)\<close> raises \<^verbatim>\<open>UnboundLocalError\<close>.
\<close>

definition scaling :: real where
  "scaling = 0.5"

definition heater_table :: "real \<Rightarrow> real option" where
  "heater_table deltaT =
     (if deltaT > 8 then Some (- 40 * scaling)
      else if deltaT > 4 then Some (- 20 * scaling)
      else if deltaT > 3 then Some (- 10 * scaling)
      else if deltaT > 2 then Some (- 6 * scaling)
      else if deltaT > 1 then Some (- 4 * scaling)
      else if deltaT > 0.5 then Some (- 2 * scaling)
      else if deltaT > 0.3 then Some (- 1 * scaling)
      else if deltaT < - 0.3 then Some (1 * scaling)
      else if deltaT < - 0.5 then Some (2 * scaling)
      else if deltaT < - 1 then Some (4 * scaling)
      else if deltaT < - 2 then Some (6 * scaling)
      else if deltaT < - 3 then Some (10 * scaling)
      else if deltaT < - 4 then Some (20 * scaling)
      else if deltaT < - 8 then Some (40 * scaling)
      else None)"

definition AAG_heater_algorithm :: "real \<Rightarrow> sample \<Rightarrow> error + int" where
  "AAG_heater_algorithm target last_entry =
     bind_err (lookup last_entry ''rain_sensor_temp_C'') (\<lambda>v.
     bind_err (as_num v) (\<lambda>t.
       (case heater_table (t - target) of
          None \<Rightarrow> Inl UnboundLocalError
        | Some deltaPWM \<Rightarrow> Inr (trunc deltaPWM))))"

text \<open>\<^verbatim>\<open>self.heater_cfg\<close>, with the values the constructor gives it by default.\<close>

record heater_cfg =
  low_temp :: real
  low_delta :: real
  high_temp :: real
  high_delta :: real
  min_power :: real
  impulse_temp :: real
  impulse_duration :: real
  impulse_cycle :: real

definition default_heater_cfg :: heater_cfg where
  "default_heater_cfg =
     \<lparr>low_temp = 0, low_delta = 6, high_temp = 20, high_delta = 4, min_power = 10,
      impulse_temp = 10, impulse_duration = 60, impulse_cycle = 600\<rparr>"

text \<open>
  The fields of the sensor object that the methods below read and write. The class
  \<^verbatim>\<open>PID\<close> is not part of the source file: its state is a value of any type \<open>'p\<close>, and
  its method \<^verbatim>\<open>recalculate(actual, new_set_point)\<close> a parameter of the model, from the
  state and the two numbers to the output and the new state.
\<close>

record 'p sensor =
  chan :: io
  PWM :: "real option"
  impulse_heating :: "bool option"
  impulse_start :: "real option"
  heater_PID :: 'p

type_synonym 'p recalculate = "'p \<Rightarrow> real \<Rightarrow> real \<Rightarrow> real \<times> 'p"

text \<open>\<^verbatim>\<open>np.any\<close> on the flags of the history.\<close>

definition np_any :: "pyval list \<Rightarrow> bool" where
  "np_any vs = list_ex py_truth vs"

text \<open>
  The block "Decide whether to use the impulse heating mechanism" of
  \<^verbatim>\<open>calculate_and_set_PWM\<close>. A sensor in impulse mode without a start time would raise
  \<^verbatim>\<open>TypeError\<close> at \<^verbatim>\<open>now - self.impulse_start\<close>.
\<close>

definition impulse_decision ::
  "heater_cfg \<Rightarrow> real \<Rightarrow> pyval list \<Rightarrow> 'p sensor \<Rightarrow> error + 'p sensor" where
  "impulse_decision hc now rain_history st =
     (if length rain_history > 3 \<and> \<not> np_any rain_history then
        (if impulse_heating st = Some True then
           (case impulse_start st of
              None \<Rightarrow> Inl TypeError
            | Some t0 \<Rightarrow>
                (let impulse_time = now - t0
                 in if impulse_time > impulse_duration hc
                    then Inr (st\<lparr>impulse_heating := Some False, impulse_start := None\<rparr>)
                    else Inr st))
         else Inr (st\<lparr>impulse_start := Some now, impulse_heating := Some True\<rparr>))
      else Inr (st\<lparr>impulse_heating := Some False, impulse_start := None\<rparr>))"

text \<open>\<^verbatim>\<open>self.set_PWM(p)\<close> on the sensor object, with the default \<^verbatim>\<open>ntries=15\<close>.\<close>

definition do_set_PWM :: "device \<Rightarrow> real \<Rightarrow> 'p sensor \<Rightarrow> (error + unit) \<times> 'p sensor" where
  "do_set_PWM dev p st =
     (case set_PWM dev p 15 (PWM st) (chan st) of
        (Inl e, s1) \<Rightarrow> (Inl e, st\<lparr>chan := s1\<rparr>)
      | (Inr pwm, s1) \<Rightarrow> (Inr (), st\<lparr>chan := s1, PWM := pwm\<rparr>))"

text \<open>The branch \<^verbatim>\<open>if self.impulse_heating:\<close> of "Set PWM Based on Impulse Method".\<close>

definition impulse_PWM ::
  "device \<Rightarrow> heater_cfg \<Rightarrow> sample \<Rightarrow> 'p sensor \<Rightarrow> (error + unit) \<times> 'p sensor" where
  "impulse_PWM dev hc last_entry st =
     (case bind_err (lookup last_entry ''ambient_temp_C'') float_of of
        Inl e \<Rightarrow> (Inl e, st)
      | Inr a \<Rightarrow>
          (let target_temp = a + impulse_temp hc
           in (case bind_err (lookup last_entry ''rain_sensor_temp_C'') as_num of
                 Inl e \<Rightarrow> (Inl e, st)
               | Inr t \<Rightarrow>
                   if t < target_temp then do_set_PWM dev 100 st
                   else
                     (case AAG_heater_algorithm target_temp last_entry of
                        Inl e \<Rightarrow> (Inl e, st)
                      | Inr new_PWM \<Rightarrow> do_set_PWM dev (of_int new_PWM) st))))"

text \<open>The \<^verbatim>\<open>else\<close> branch: the set point from the ambient temperature, then the PID.\<close>

definition proportional_deltaT :: "heater_cfg \<Rightarrow> real \<Rightarrow> error + real" where
  "proportional_deltaT hc amb =
     (if amb < low_temp hc then Inr (low_delta hc)
      else if amb > high_temp hc then Inr (high_delta hc)
      else if high_temp hc - low_temp hc = 0 then Inl ZeroDivisionError
      else
        (let frac = (amb - low_temp hc) / (high_temp hc - low_temp hc)
         in Inr (low_delta hc + frac * (high_delta hc - low_delta hc))))"

definition proportional_PWM ::
  "device \<Rightarrow> 'p recalculate \<Rightarrow> heater_cfg \<Rightarrow> sample \<Rightarrow> 'p sensor
   \<Rightarrow> (error + unit) \<times> 'p sensor" where
  "proportional_PWM dev recalc hc last_entry st =
     (case bind_err (lookup last_entry ''ambient_temp_C'') as_num of
        Inl e \<Rightarrow> (Inl e, st)
      | Inr amb \<Rightarrow>
          (case proportional_deltaT hc amb of
             Inl e \<Rightarrow> (Inl e, st)
           | Inr deltaT \<Rightarrow>
               (let target_temp = amb + deltaT
                in (case bind_err (lookup last_entry ''rain_sensor_temp_C'') float_of of
                      Inl e \<Rightarrow> (Inl e, st)
                    | Inr actual \<Rightarrow>
                        (case recalc (heater_PID st) actual target_temp of
                           (out, pid') \<Rightarrow>
                             do_set_PWM dev (of_int (trunc out))
                               (st\<lparr>heater_PID := pid'\<rparr>))))))"

text \<open>
  \<^verbatim>\<open>calculate_and_set_PWM()\<close>. \<open>weather\<close> is the collection \<^verbatim>\<open>db.weather\<close>, \<open>current\<close>
  the data of the documents \<^verbatim>\<open>db.current.find({"type": "weather"})\<close>, \<open>now\<close> the value
  of \<^verbatim>\<open>dt.utcnow()\<close>. The sensor object keeps what was assigned before an exception.
\<close>

definition calculate_and_set_PWM ::
  "device \<Rightarrow> 'p recalculate \<Rightarrow> heater_cfg \<Rightarrow> real \<Rightarrow> entry list \<Rightarrow> sample list \<Rightarrow> 'p sensor
   \<Rightarrow> (error + unit) \<times> 'p sensor" where
  "calculate_and_set_PWM dev recalc hc now weather current st =
     (let start = now - of_int (trunc (impulse_cycle hc));
          entries = find_between weather start now
      in (case current of
            [] \<Rightarrow> (Inl IndexError, st)
          | last_entry # others \<Rightarrow>
              (let rain_history = field_values ''rain_safe'' entries
               in if last_entry ''ambient_temp_C'' = None then (Inr (), st)
                  else if last_entry ''rain_sensor_temp_C'' = None then (Inr (), st)
                  else
                    (case impulse_decision hc now rain_history st of
                       Inl e \<Rightarrow> (Inl e, st)
                     | Inr st1 \<Rightarrow>
                         if impulse_heating st1 = Some True
                         then impulse_PWM dev hc last_entry st1
                         else proportional_PWM dev recalc hc last_entry st1))))"

section \<open>The safety decision\<close>

text \<open>
  The thresholds \<^verbatim>\<open>self.cfg.get(key, default)\<close> reads; \<open>default_cfg\<close> holds the
  defaults. The source reads the rain threshold from the key \<^verbatim>\<open>threshold_rainy\<close> into
  the variable \<^verbatim>\<open>threshold_rain\<close>.
\<close>

record cfg =
  threshold_cloudy :: real
  threshold_very_cloudy :: real
  threshold_windy :: real
  threshold_very_windy :: real
  threshold_gusty :: real
  threshold_very_gusty :: real
  threshold_wet :: real
  threshold_rain :: real
  safety_delay :: real

definition default_cfg :: cfg where
  "default_cfg =
     \<lparr>threshold_cloudy = - 22.5, threshold_very_cloudy = - 15, threshold_windy = 20,
      threshold_very_windy = 30, threshold_gusty = 40, threshold_very_gusty = 50,
      threshold_wet = 2000, threshold_rain = 1700, safety_delay = 15\<rparr>"

text \<open>
  Cloudiness. The filter of the comprehension is
  \<^verbatim>\<open>('ambient_temp_C' and 'sky_temp_C') in x['data'].keys()\<close>; Python's \<^verbatim>\<open>and\<close> of two
  non-empty texts is the second one, so the filter asks for \<^verbatim>\<open>sky_temp_C\<close> only and
  \<^verbatim>\<open>x['data']['ambient_temp_C']\<close> raises \<^verbatim>\<open>KeyError\<close> when that key is missing.
\<close>

fun sky_diff :: "entry list \<Rightarrow> error + real list" where
  "sky_diff [] = Inr []"
| "sky_diff (x # xs) =
     (case data x ''sky_temp_C'' of
        None \<Rightarrow> sky_diff xs
      | Some a \<Rightarrow>
          bind_err (lookup (data x) ''ambient_temp_C'') (\<lambda>b.
          bind_err (py_sub a b) (\<lambda>d.
          bind_err (sky_diff xs) (\<lambda>ds. Inr (d # ds)))))"

definition cloud_label :: "cfg \<Rightarrow> real \<Rightarrow> string" where
  "cloud_label c last_cloud =
     (if last_cloud > threshold_very_cloudy c then ''Very Cloudy''
      else if last_cloud > threshold_cloudy c then ''Cloudy''
      else ''Clear'')"

definition sky_category :: "cfg \<Rightarrow> entry list \<Rightarrow> sample \<Rightarrow> error + (bool \<times> string)" where
  "sky_category c entries current_values =
     bind_err (sky_diff entries) (\<lambda>diffs.
       if length diffs = 0 then Inr (False, ''Unknown'')
       else
         bind_err (py_max diffs) (\<lambda>m.
           (let sky_safe = \<not> m > threshold_very_cloudy c
            in bind_err (lookup current_values ''sky_temp_C'') (\<lambda>a.
               bind_err (lookup current_values ''ambient_temp_C'') (\<lambda>b.
               bind_err (py_sub a b) (\<lambda>last_cloud.
                 Inr (sky_safe, cloud_label c last_cloud)))))))"

text \<open>
  \<^verbatim>\<open>np.convolve(a, v, 'same')\<close> for two lists that are not empty: the longer list
  comes first, the full convolution is cut to its length, starting
  \<open>n - 1 - n div 2\<close> places in, \<open>n\<close> the length of the shorter list.
\<close>

definition conv_at :: "real list \<Rightarrow> real list \<Rightarrow> nat \<Rightarrow> real" where
  "conv_at a v t =
     sum_list (map (\<lambda>k. if k \<le> t \<and> t - k < length v then a ! k * v ! (t - k) else 0)
                   [0..<length a])"

definition np_convolve_same :: "real list \<Rightarrow> real list \<Rightarrow> real list" where
  "np_convolve_same a v =
     (let a' = (if length v > length a then v else a);
          v' = (if length v > length a then a else v);
          n = length v'
      in map (\<lambda>i. conv_at a' v' (i + (n - 1 - n div 2))) [0..<length a'])"

text \<open>\<^verbatim>\<open>movingaverage(interval, window_size)\<close> for a positive integer window size.\<close>

definition movingaverage :: "real list \<Rightarrow> nat \<Rightarrow> real list" where
  "movingaverage interval window_size =
     np_convolve_same interval (replicate window_size (1 / real window_size))"

definition wind_label :: "cfg \<Rightarrow> real \<Rightarrow> string" where
  "wind_label c w =
     (if w > threshold_very_windy c then ''Very Windy''
      else if w > threshold_windy c then ''Windy''
      else ''Calm'')"

definition gust_label :: "cfg \<Rightarrow> real \<Rightarrow> string" where
  "gust_label c w =
     (if w > threshold_very_gusty c then ''Very Gusty''
      else if w > threshold_gusty c then ''Gusty''
      else ''Calm'')"

text \<open>
  Wind and gusts: \<open>mavg_window\<close> is \<^verbatim>\<open>mavg_count\<close>, and the result of
  \<open>wind_category\<close> is \<^verbatim>\<open>(wind_safe, wind_condition, gust_safe, gust_condition)\<close>. A
  window size that is not positive makes \<^verbatim>\<open>np.ones\<close> or \<^verbatim>\<open>np.convolve\<close> raise
  \<^verbatim>\<open>ValueError\<close>.
\<close>

definition mavg_window :: "real \<Rightarrow> entry list \<Rightarrow> error + nat" where
  "mavg_window end' entries =
     bind_err (py_min (map date entries)) (\<lambda>first.
       (let typical_data_interval = (end' - first) / real (length entries)
        in if typical_data_interval = 0 then Inl ZeroDivisionError
           else
             (let mavg_count = trunc (of_int \<lceil>120 / typical_data_interval\<rceil>)
              in if mavg_count \<le> 0 then Inl ValueError else Inr (nat mavg_count))))"

definition wind_category ::
  "cfg \<Rightarrow> real \<Rightarrow> entry list \<Rightarrow> sample \<Rightarrow> error + (bool \<times> string \<times> bool \<times> string)" where
  "wind_category c end' entries current_values =
     (let wind_values = field_values ''wind_speed_KPH'' entries
      in if length wind_values = 0 then Inr (False, ''Unknown'', False, ''Unknown'')
         else
           bind_err (mavg_window end' entries) (\<lambda>mavg_count.
           bind_err (nums wind_values) (\<lambda>wind_speed.
             (let wind_mavg = movingaverage wind_speed mavg_count
              in bind_err (py_max wind_mavg) (\<lambda>mavg_max.
                 bind_err (py_max wind_speed) (\<lambda>gust_max.
                 bind_err (lookup current_values ''wind_speed_KPH'') (\<lambda>v.
                 bind_err (as_num v) (\<lambda>current_wind.
                   Inr (\<not> mavg_max > threshold_very_windy c,
                        wind_label c (last wind_mavg),
                        \<not> gust_max > threshold_very_gusty c,
                        gust_label c current_wind)))))))))"

text \<open>
  Rain: the result is \<^verbatim>\<open>(rain_safe, rain_condition)\<close>. The label comes from the
  current sample; the minimum over the history is looked at only when the current
  sample is dry, and changes the flag alone.
\<close>

definition rain_category :: "cfg \<Rightarrow> entry list \<Rightarrow> sample \<Rightarrow> error + (bool \<times> string)" where
  "rain_category c entries current_values =
     (let rf_value = field_values ''rain_frequency'' entries
      in if length rf_value = 0 then Inr (False, ''Unknown'')
         else
           bind_err (lookup current_values ''rain_frequency'') (\<lambda>v.
           bind_err (as_num v) (\<lambda>rf.
             if rf \<le> threshold_rain c then Inr (False, ''Rain'')
             else if rf \<le> threshold_wet c then Inr (False, ''Wet'')
             else
               bind_err (nums rf_value) (\<lambda>rfs.
               bind_err (py_min rfs) (\<lambda>m.
                 if m \<le> threshold_rain c then Inr (False, ''Dry'')
                 else if m \<le> threshold_wet c then Inr (False, ''Dry'')
                 else Inr (True, ''Dry''))))))"

text \<open>The dictionary \<^verbatim>\<open>make_safety_decision\<close> returns.\<close>

record verdict =
  Safe :: bool
  Sky :: string
  Wind :: string
  Gust :: string
  Rain :: string

text \<open>
  \<^verbatim>\<open>make_safety_decision(current_values)\<close>: \<open>weather\<close> is the collection
  \<^verbatim>\<open>db.weather\<close> and \<open>end'\<close> the value of \<^verbatim>\<open>dt.utcnow()\<close>.
\<close>

definition make_safety_decision ::
  "cfg \<Rightarrow> entry list \<Rightarrow> real \<Rightarrow> sample \<Rightarrow> error + verdict" where
  "make_safety_decision c weather end' current_values =
     (let start = end' - of_int (trunc (safety_delay c * 60));
          entries = find_sorted weather start end'
      in bind_err (sky_category c entries current_values) (\<lambda>(sky_safe, cloud_condition).
         bind_err (wind_category c end' entries current_values)
           (\<lambda>(wind_safe, wind_condition, gust_safe, gust_condition).
         bind_err (rain_category c entries current_values) (\<lambda>(rain_safe, rain_condition).
           Inr \<lparr>Safe = sky_safe \<and> wind_safe \<and> gust_safe \<and> rain_safe,
                Sky = cloud_condition, Wind = wind_condition, Gust = gust_condition,
                Rain = rain_condition\<rparr>))))"

section \<open>One measurement cycle\<close>

text \<open>
  \<^verbatim>\<open>capture()\<close>. The truth value of an astropy quantity (\<^verbatim>\<open>if self.get_sky_temperature():\<close>)
  is decided by a library that is not part of the source file, and differs between its
  versions: it is the parameter \<open>qb\<close>, which may raise. The rain frequency is a numpy
  float and the PWM value a float: they are true unless zero.
\<close>

type_synonym quantity_bool = "real \<Rightarrow> error + bool"

definition put_quantity ::
  "quantity_bool \<Rightarrow> string \<Rightarrow> (real \<Rightarrow> pyval) \<Rightarrow> real option \<Rightarrow> sample \<Rightarrow> error + sample" where
  "put_quantity qb k f r d =
     (case r of
        None \<Rightarrow> Inr d
      | Some v \<Rightarrow> bind_err (qb v) (\<lambda>b. Inr (if b then d(k \<mapsto> f v) else d)))"

definition put_float :: "string \<Rightarrow> real option \<Rightarrow> sample \<Rightarrow> sample" where
  "put_float k r d = (case r of None \<Rightarrow> d | Some v \<Rightarrow> if v \<noteq> 0 then d(k \<mapsto> Num v) else d)"

text \<open>The identification the constructor reads from the device.\<close>

record ident =
  name :: string
  firmware_version :: string
  serial_number :: string

text \<open>
  The readings of \<^verbatim>\<open>capture\<close>, from \<^verbatim>\<open>data = {}\<close> to the wind speed: the dictionary
  and the channel after them.
\<close>

definition read_all ::
  "device \<Rightarrow> quantity_bool \<Rightarrow> ident \<Rightarrow> 'p sensor \<Rightarrow> (error + sample) \<times> 'p sensor" where
  "read_all dev qb idn st =
     (let d0 = [''weather_sensor_name'' \<mapsto> Str (name idn),
                ''weather_sensor_firmware_version'' \<mapsto> Str (firmware_version idn),
                ''weather_sensor_serial_number'' \<mapsto> Str (serial_number idn)]
      in (case get_sky_temperature dev 9 (chan st) of
            (Inl e, s1) \<Rightarrow> (Inl e, st\<lparr>chan := s1\<rparr>)
          | (Inr sky_temp, s1) \<Rightarrow>
      (case put_quantity qb ''sky_temp_C'' Num sky_temp d0 of
            Inl e \<Rightarrow> (Inl e, st\<lparr>chan := s1\<rparr>)
          | Inr d1 \<Rightarrow>
      (case get_ambient_temperature dev 5 s1 of
            (Inl e, s2) \<Rightarrow> (Inl e, st\<lparr>chan := s2\<rparr>)
          | (Inr ambient_temp, s2) \<Rightarrow>
      (case put_quantity qb ''ambient_temp_C'' Num ambient_temp d1 of
            Inl e \<Rightarrow> (Inl e, st\<lparr>chan := s2\<rparr>)
          | Inr d2 \<Rightarrow>
      (case get_values dev 5 s2 of
            (Inl e, s3) \<Rightarrow> (Inl e, st\<lparr>chan := s3\<rparr>)
          | (Inr (internal_voltage, LDR_resistance, rain_sensor_temp), s3) \<Rightarrow>
      (case bind_err (put_quantity qb ''internal_voltage_V'' Num internal_voltage d2) (\<lambda>d3.
            bind_err (put_quantity qb ''ldr_resistance_Ohm'' Num LDR_resistance d3) (\<lambda>d4.
            put_quantity qb ''rain_sensor_temp_C'' (\<lambda>v. Str (fmt_02f v)) rain_sensor_temp d4))
       of
            Inl e \<Rightarrow> (Inl e, st\<lparr>chan := s3\<rparr>)
          | Inr d5 \<Rightarrow>
      (case get_rain_frequency dev 5 s3 of
            (Inl e, s4) \<Rightarrow> (Inl e, st\<lparr>chan := s4\<rparr>)
          | (Inr rain_frequency, s4) \<Rightarrow>
      (case get_PWM dev s4 of
            (pwm, s5) \<Rightarrow>
      (case get_errors dev s5 of
            (Inl e, s6) \<Rightarrow> (Inl e, st\<lparr>chan := s6, PWM := pwm\<rparr>)
          | (Inr errors, s6) \<Rightarrow>
      (case get_wind_speed dev 3 s6 of
            (Inl e, s7) \<Rightarrow> (Inl e, st\<lparr>chan := s7, PWM := pwm\<rparr>)
          | (Inr wind_speed, s7) \<Rightarrow>
      (case put_quantity qb ''wind_speed_KPH'' Num wind_speed
              ((put_float ''pwm_value'' pwm (put_float ''rain_frequency'' rain_frequency d5))
                 (''errors'' \<mapsto> errors)) of
            Inl e \<Rightarrow> (Inl e, st\<lparr>chan := s7, PWM := pwm\<rparr>)
          | Inr d9 \<Rightarrow> (Inr d9, st\<lparr>chan := s7, PWM := pwm\<rparr>)))))))))))))"

text \<open>
  \<^verbatim>\<open>capture()\<close> as a whole: the readings, the safety decision on them, the heater, and
  the dictionary it returns. \<open>t1\<close> and \<open>t2\<close> are the values of \<^verbatim>\<open>dt.utcnow()\<close> in the
  safety decision and in the heater step; the sample is stored only after the heater
  step, so \<open>weather\<close> and \<open>current\<close> are the store before this cycle.
\<close>

definition capture ::
  "device \<Rightarrow> quantity_bool \<Rightarrow> 'p recalculate \<Rightarrow> cfg \<Rightarrow> heater_cfg \<Rightarrow> ident
   \<Rightarrow> entry list \<Rightarrow> sample list \<Rightarrow> real \<Rightarrow> real \<Rightarrow> 'p sensor
   \<Rightarrow> (error + sample) \<times> 'p sensor" where
  "capture dev qb recalc c hc idn weather current t1 t2 st =
     (case read_all dev qb idn st of
        (Inl e, st1) \<Rightarrow> (Inl e, st1)
      | (Inr d, st1) \<Rightarrow>
          (case make_safety_decision c weather t1 d of
             Inl e \<Rightarrow> (Inl e, st1)
           | Inr safe_dict \<Rightarrow>
               (let d' = d(''safe'' \<mapsto> Bool (Safe safe_dict),
                           ''sky_condition'' \<mapsto> Str (Sky safe_dict),
                           ''wind_condition'' \<mapsto> Str (Wind safe_dict),
                           ''gust_condition'' \<mapsto> Str (Gust safe_dict),
                           ''rain_condition'' \<mapsto> Str (Rain safe_dict))
                in (case calculate_and_set_PWM dev recalc hc t2 weather current st1 of
                      (Inl e, st2) \<Rightarrow> (Inl e, st2)
                    | (Inr u, st2) \<Rightarrow> (Inr d', st2)))))"

section \<open>Devices and samples of the examples\<close>

text \<open>A device that never answers: every read returns the empty text.\<close>

definition silent :: device where
  "silent = steady (\<lambda>req. '''')"

text \<open>A device whose heater is stuck: it reports the PWM value 0 to every request.\<close>

definition stuck :: device where
  "stuck = steady (\<lambda>req. ''!Q    0!'')"

text \<open>
  A current sample of a clear, calm and dry night, the same sample as a historical
  entry, an entry of a wet moment, and two entries that carry only one of the two
  temperatures.
\<close>

definition clear_now :: sample where
  "clear_now = [''sky_temp_C'' \<mapsto> Num (- 30), ''ambient_temp_C'' \<mapsto> Num 10,
                ''wind_speed_KPH'' \<mapsto> Num 5, ''rain_frequency'' \<mapsto> Num 2500]"

definition clear_entry :: entry where
  "clear_entry = \<lparr>date = 0, data = clear_now\<rparr>"

definition wet_entry :: entry where
  "wet_entry = \<lparr>date = 0, data = clear_now(''rain_frequency'' \<mapsto> Num 1500)\<rparr>"

definition sky_only_entry :: entry where
  "sky_only_entry = \<lparr>date = 0, data = [''sky_temp_C'' \<mapsto> Num (- 30)]\<rparr>"

definition ambient_only_entry :: entry where
  "ambient_only_entry = \<lparr>date = 0, data = [''ambient_temp_C'' \<mapsto> Num 10]\<rparr>"

text \<open>A stored sample with numeric temperatures, the rain sensor at \<open>t\<close> degrees.\<close>

definition warm_entry :: "real \<Rightarrow> sample" where
  "warm_entry t = [''ambient_temp_C'' \<mapsto> Num 10, ''rain_sensor_temp_C'' \<mapsto> Num t]"

text \<open>
  A history of four samples flagged rain-unsafe, a sensor object as the constructor
  leaves it, and a stand-in for the PID controller.
\<close>

definition rainy_weather :: "entry list" where
  "rainy_weather = map (\<lambda>t. \<lparr>date = t, data = [''rain_safe'' \<mapsto> Bool False]\<rparr>) [10, 20, 30, 40]"

definition sensor0 :: "unit sensor" where
  "sensor0 = \<lparr>chan = io0, PWM = None, impulse_heating = None, impulse_start = None,
              heater_PID = ()\<rparr>"

definition no_PID :: "unit recalculate" where
  "no_PID p actual set_point = (0, p)"

text \<open>The fields of a sample that hold a measured physical quantity as a number.\<close>

definition number_fields :: "string list" where
  "number_fields = [''sky_temp_C'', ''ambient_temp_C'', ''internal_voltage_V'',
                    ''ldr_resistance_Ohm'', ''rain_frequency'', ''pwm_value'',
                    ''wind_speed_KPH'']"

text \<open>
  A dictionary whose rain sensor temperature, if it has one, is a text written with two
  decimals, and whose other measured quantities are numbers.
\<close>

definition typed :: "sample \<Rightarrow> bool" where
  "typed d =
     ((\<forall>v. d ''rain_sensor_temp_C'' = Some v \<longrightarrow> (\<exists>x. v = Str (fmt_02f x))) \<and>
      (\<forall>k v. k \<in> set number_fields \<and> d k = Some v \<longrightarrow> (\<exists>x. v = Num x)))"

text \<open>
  A device that answers the two temperature requests only, the identification of a
  sensor, the truth value of a quantity in the library versions where every quantity is
  true, and the sample that \<^verbatim>\<open>capture\<close> builds from that device on an empty store.
\<close>

definition thermo :: device where
  "thermo = steady (\<lambda>req. if req = ''!T'' then ''!2  2150!''
                            else if req = ''!C'' then ''!6  512!4  512!5  511.5!''
                            else '''')"

definition ident0 :: ident where
  "ident0 = \<lparr>name = ''CloudWatcher'', firmware_version = ''5.6'', serial_number = ''0905''\<rparr>"

definition always_true :: quantity_bool where
  "always_true v = Inr True"

definition thermo_sample :: sample where
  "thermo_sample =
     [''weather_sensor_name'' \<mapsto> Str ''CloudWatcher'',
      ''weather_sensor_firmware_version'' \<mapsto> Str ''5.6'',
      ''weather_sensor_serial_number'' \<mapsto> Str ''0905'',
      ''ambient_temp_C'' \<mapsto> Num 21.5,
      ''internal_voltage_V'' \<mapsto> Num (3069 / 512),
      ''ldr_resistance_Ohm'' \<mapsto> Num (28672 / 511),
      ''rain_sensor_temp_C'' \<mapsto> Str ''25.00'',
      ''errors'' \<mapsto> Dict [(''error_1'', PyNone), (''error_2'', PyNone),
                             (''error_3'', PyNone), (''error_4'', PyNone)],
      ''safe'' \<mapsto> Bool False,
      ''sky_condition'' \<mapsto> Str ''Unknown'',
      ''wind_condition'' \<mapsto> Str ''Unknown'',
      ''gust_condition'' \<mapsto> Str ''Unknown'',
      ''rain_condition'' \<mapsto> Str ''Unknown'']"

text \<open>
  A device with an anemometer that answers the first two requests for a temperature
  and the first two requests for a wind speed, and nothing after them.
\<close>

definition flaky :: device where
  "flaky k req =
     (if req = ''v!'' then ''!v 1!''
      else if req = ''V!'' \<and> k = 1 then ''!w 10!''
      else if req = ''V!'' \<and> k = 2 then ''!w 12!''
      else if req = ''!T'' \<and> k = 0 then ''!2 1000!''
      else if req = ''!T'' \<and> k = 1 then ''!2 1200!''
      else '''')"

section \<open>Properties of the protocol engine\<close>

text \<open>The definitions that evaluate a pattern on a text.\<close>

lemmas rx_defs = re_match_def lit_def num_field_def err_field_def plus_def star_def times_def
  grp_def digit_chars_def space_chars_def word_chars_def frame_rx_def strip_frame_def Let_def

lemma bind_err_simps [simp]:
  "bind_err (Inl e) f = Inl e"
  "bind_err (Inr v) f = f v"
  by (simp_all add: bind_err_def)

lemma send_known:
  "find_command commands req = Some cmd \<Longrightarrow>
   send dev s req delay =
     (Some (strip_frame (dev (writes s) req)),
      \<lparr>writes = Suc (writes s), trace = Sleep delay # Write req # trace s\<rparr>)"
  by (simp add: send_def)

lemma query_loop_stop:
  "truthy result \<or> maxtries < count \<Longrightarrow>
   query_loop dev req delay expect maxtries count result s = (Inr result, s)"
  by (subst query_loop.simps) auto

lemma query_loop_miss:
  "find_command commands req = Some cmd \<Longrightarrow> \<not> truthy result \<Longrightarrow> count \<le> maxtries \<Longrightarrow>
   re_match expect (strip_frame (dev (writes s) req)) = None \<Longrightarrow>
   query_loop dev req delay expect maxtries count result s =
     query_loop dev req delay expect maxtries (count + 1) None
       \<lparr>writes = Suc (writes s),
        trace = Sleep hibernate # Sleep delay # Write req # trace s\<rparr>"
  by (subst query_loop.simps) (simp add: send_known)

lemma query_loop_hit:
  "find_command commands req = Some cmd \<Longrightarrow> \<not> truthy result \<Longrightarrow> count \<le> maxtries \<Longrightarrow>
   re_match expect (strip_frame (dev (writes s) req)) = Some gs \<Longrightarrow>
   query_loop dev req delay expect maxtries count result s =
     query_loop dev req delay expect maxtries (count + 1) (Some gs)
       \<lparr>writes = Suc (writes s), trace = Sleep delay # Write req # trace s\<rparr>"
  by (subst query_loop.simps) (simp add: send_known)

text \<open>
  When no reply from the \<open>k0\<close>-th write on matches, the loop sends until the counter
  has passed \<open>maxtries\<close>: that is \<open>maxtries + 1 - count\<close> requests.
\<close>

lemma query_loop_mismatch:
  assumes known: "find_command commands req = Some cmd"
    and bad: "\<And>k. k0 \<le> k \<Longrightarrow> re_match expect (strip_frame (dev k req)) = None"
    and k0: "k0 \<le> writes s"
  shows "fst (query_loop dev req delay expect maxtries count None s) = Inr None \<and>
         writes (snd (query_loop dev req delay expect maxtries count None s))
           = writes s + nat (maxtries + 1 - count)"
  using k0
proof (induction "nat (maxtries + 1 - count)" arbitrary: count s)
  case 0
  then have "maxtries < count" by simp
  then show ?case by (simp add: query_loop_stop)
next
  case (Suc n)
  then have le: "count \<le> maxtries" by simp
  have n: "n = nat (maxtries + 1 - (count + 1))" using Suc.hyps(2) by simp
  have step: "nat (maxtries + 1 - count) = Suc (nat (maxtries + 1 - (count + 1)))"
    using le by simp
  have "query_loop dev req delay expect maxtries count None s =
        query_loop dev req delay expect maxtries (count + 1) None
          \<lparr>writes = Suc (writes s),
           trace = Sleep hibernate # Sleep delay # Write req # trace s\<rparr>"
    using known le bad Suc.prems by (intro query_loop_miss) auto
  then show ?case
    using Suc.hyps(1) [OF n] step Suc.prems by simp
qed

lemma query_unknown:
  "find_command commands req = None \<Longrightarrow> query dev s req maxtries = (Inr None, s)"
  by (simp add: query_def)

lemma query_no_expects:
  "find_command commands req = Some cmd \<Longrightarrow> expects cmd = None \<Longrightarrow>
   query dev s req maxtries = (Inl KeyError, s)"
  by (simp add: query_def)

lemma query_first_hit:
  assumes "find_command commands req = Some cmd" and "expects cmd = Some expect"
    and "0 \<le> maxtries"
    and "re_match expect (strip_frame (dev (writes s) req)) = Some (g # gs)"
  shows "query dev s req maxtries =
           (Inr (Some (g # gs)),
            \<lparr>writes = Suc (writes s), trace = Sleep (delay_of cmd) # Write req # trace s\<rparr>)"
proof -
  have "query_loop dev req (delay_of cmd) expect maxtries 0 None s =
        query_loop dev req (delay_of cmd) expect maxtries (0 + 1) (Some (g # gs))
          \<lparr>writes = Suc (writes s), trace = Sleep (delay_of cmd) # Write req # trace s\<rparr>"
    using assms by (intro query_loop_hit) auto
  then show ?thesis
    using assms(1,2) by (simp add: query_def delay_of_def query_loop_stop)
qed

lemma query_all_miss:
  assumes "find_command commands req = Some cmd" and "expects cmd = Some expect"
    and "\<And>k. k0 \<le> k \<Longrightarrow> re_match expect (strip_frame (dev k req)) = None"
    and "k0 \<le> writes s"
  shows "fst (query dev s req maxtries) = Inr None \<and>
         writes (snd (query dev s req maxtries)) = writes s + nat (maxtries + 1)"
proof -
  have "fst (query_loop dev req (delay_of cmd) expect maxtries 0 None s) = Inr None \<and>
        writes (snd (query_loop dev req (delay_of cmd) expect maxtries 0 None s))
          = writes s + nat (maxtries + 1 - 0)"
    by (rule query_loop_mismatch [where ?k0.0 = k0 and cmd = cmd]) (use assms in auto)
  then show ?thesis
    using assms(1,2) by (simp add: query_def delay_of_def)
qed

lemma concat_replicate_comm:
  "concat (replicate n xs) @ xs = xs @ concat (replicate n xs)"
  by (induction n) simp_all

lemma query_loop_mismatch_trace:
  assumes known: "find_command commands req = Some cmd"
    and bad: "\<And>k. k0 \<le> k \<Longrightarrow> re_match expect (strip_frame (dev k req)) = None"
    and k0: "k0 \<le> writes s"
  shows "trace (snd (query_loop dev req delay expect maxtries count None s))
           = concat (replicate (nat (maxtries + 1 - count))
                       [Sleep hibernate, Sleep delay, Write req]) @ trace s"
  using k0
proof (induction "nat (maxtries + 1 - count)" arbitrary: count s)
  case 0
  then have "maxtries < count" by simp
  then show ?case by (simp add: query_loop_stop)
next
  case (Suc n)
  then have le: "count \<le> maxtries" by simp
  have n: "n = nat (maxtries + 1 - (count + 1))" using Suc.hyps(2) by simp
  have step: "nat (maxtries + 1 - count) = Suc (nat (maxtries + 1 - (count + 1)))"
    using le by simp
  have "query_loop dev req delay expect maxtries count None s =
        query_loop dev req delay expect maxtries (count + 1) None
          \<lparr>writes = Suc (writes s),
           trace = Sleep hibernate # Sleep delay # Write req # trace s\<rparr>"
    using known le bad Suc.prems by (intro query_loop_miss) auto
  then show ?case
    using Suc.hyps(1) [OF n] step Suc.prems
      concat_replicate_comm [of "nat (maxtries - count)" "[Sleep hibernate, Sleep delay, Write req]"]
    by simp
qed

lemma query_all_miss_trace:
  assumes "find_command commands req = Some cmd" and "expects cmd = Some expect"
    and "\<And>k. k0 \<le> k \<Longrightarrow> re_match expect (strip_frame (dev k req)) = None"
    and "k0 \<le> writes s"
  shows "trace (snd (query dev s req maxtries))
           = concat (replicate (nat (maxtries + 1))
                       [Sleep hibernate, Sleep (delay_of cmd), Write req]) @ trace s"
proof -
  have "trace (snd (query_loop dev req (delay_of cmd) expect maxtries 0 None s))
          = concat (replicate (nat (maxtries + 1 - 0))
                       [Sleep hibernate, Sleep (delay_of cmd), Write req]) @ trace s"
    by (rule query_loop_mismatch_trace [where ?k0.0 = k0 and cmd = cmd]) (use assms in auto)
  then show ?thesis
    using assms(1,2) by (simp add: query_def delay_of_def)
qed

lemma find_A: "find_command commands ''!A'' = Some Cmd_A" by code_simp
lemma strip_frame_empty: "strip_frame '''' = ''''" by code_simp
lemma expect_A_empty: "re_match (lit ''!N'' @ plus Space # grp [plus Word] @ lit ''!'') '''' = None" by code_simp

lemma find_G: "find_command commands ''!G'' = Some Cmd_G" by code_simp
lemma find_H: "find_command commands ''!H'' = Some Cmd_H" by code_simp
lemma find_z: "find_command commands ''!z'' = Some Cmd_z" by code_simp

text \<open>
  Claim C7: \<^verbatim>\<open>query\<close> makes at most \<^verbatim>\<open>maxtries\<close> send attempts in total, the first
  included (5 by default), sleeps the 500 ms hibernation interval after each reply that
  does not match, and returns \<^verbatim>\<open>None\<close> when no attempt matches.

  The code does not keep the bound. The counter starts at 0 and the loop runs while
  \<^verbatim>\<open>count <= maxtries\<close>: for a device that never answers, the request \<^verbatim>\<open>!A\<close> and
  \<^verbatim>\<open>maxtries = m\<close>, the method writes the request \<open>m + 1\<close> times (6 times for the default
  5), each time followed by the settle delay and the hibernation sleep, and then returns
  \<^verbatim>\<open>None\<close>.
\<close>

theorem query_silent_sends:
  "fst (query silent s ''!A'' (int m)) = Inr None \<and>
   writes (snd (query silent s ''!A'' (int m))) = writes s + (m + 1) \<and>
   trace (snd (query silent s ''!A'' (int m)))
     = concat (replicate (m + 1) [Sleep hibernate, Sleep 0.2, Write ''!A'']) @ trace s"
proof -
  let ?e = "lit ''!N'' @ plus Space # grp [plus Word] @ lit ''!''"
  have bad: "re_match ?e (strip_frame (silent k ''!A'')) = None" for k
    by (simp add: silent_def steady_def strip_frame_empty expect_A_empty)
  have e: "expects Cmd_A = Some ?e" by simp
  have m: "nat (int m + 1) = m + 1" by simp
  have d: "delay_of Cmd_A = 0.2" by (simp add: delay_of_def)
  have 1: "fst (query silent s ''!A'' (int m)) = Inr None \<and>
           writes (snd (query silent s ''!A'' (int m))) = writes s + nat (int m + 1)"
    by (rule query_all_miss [where cmd = Cmd_A and expect = ?e and ?k0.0 = 0])
       (simp_all add: find_A bad)
  have 2: "trace (snd (query silent s ''!A'' (int m)))
             = concat (replicate (nat (int m + 1))
                 [Sleep hibernate, Sleep (delay_of Cmd_A), Write ''!A'']) @ trace s"
    by (rule query_all_miss_trace [where cmd = Cmd_A and expect = ?e and ?k0.0 = 0])
       (simp_all add: find_A bad)
  show ?thesis
    using 1 2 unfolding m d by simp
qed

text \<open>
  Claim C8: \<^verbatim>\<open>query\<close> rejects a request that matches no command, and for every request
  that matches a command definition, \<^verbatim>\<open>!G\<close>, \<^verbatim>\<open>!H\<close> and \<^verbatim>\<open>!z\<close> included, returns the
  matched fields or \<^verbatim>\<open>None\<close> and fails in no other way.

  The code fails on these three requests: each matches a key of \<^verbatim>\<open>self.commands\<close> that
  has no entry in \<^verbatim>\<open>self.expects\<close>, so \<^verbatim>\<open>self.expects[cmd]\<close> raises \<^verbatim>\<open>KeyError\<close> before
  anything is sent, whatever the device, the state of the channel and \<^verbatim>\<open>maxtries\<close>.
\<close>

theorem query_known_command_KeyError:
  "query dev s ''!G'' maxtries = (Inl KeyError, s) \<and>
   query dev s ''!H'' maxtries = (Inl KeyError, s) \<and>
   query dev s ''!z'' maxtries = (Inl KeyError, s)"
  by (simp add: query_no_expects [OF find_G] query_no_expects [OF find_H]
        query_no_expects [OF find_z])

section \<open>Properties of the PWM setter\<close>

lemma set_PWM_loop_stop:
  "success \<or> ntries < count \<Longrightarrow>
   set_PWM_loop dev percent ntries count success pwm s = (Inr pwm, s)"
  by (subst set_PWM_loop.simps) auto

lemma set_PWM_loop_far:
  "\<not> success \<Longrightarrow> count \<le> ntries \<Longrightarrow>
   query5 dev s (send_string percent) = (Inr (Some (g # gs)), s1) \<Longrightarrow>
   py_float g = Some v \<Longrightarrow> \<bar>v * 100 / 1023 - percent\<bar> > 5 \<Longrightarrow>
   set_PWM_loop dev percent ntries count success pwm s =
     set_PWM_loop dev percent ntries (count + 1) False (Some (v * 100 / 1023))
       (s1\<lparr>trace := Sleep 2 # trace s1\<rparr>)"
  by (subst set_PWM_loop.simps) simp

lemma set_PWM_loop_near:
  "\<not> success \<Longrightarrow> count \<le> ntries \<Longrightarrow>
   query5 dev s (send_string percent) = (Inr (Some (g # gs)), s1) \<Longrightarrow>
   py_float g = Some v \<Longrightarrow> \<bar>v * 100 / 1023 - percent\<bar> \<le> 5 \<Longrightarrow>
   set_PWM_loop dev percent ntries count success pwm s = (Inr (Some (v * 100 / 1023)), s1)"
  by (subst set_PWM_loop.simps) (simp add: set_PWM_loop_stop)

lemma send_string_100: "send_string 100 = ''P1023!''"
  by code_simp
lemma find_P1023: "find_command commands ''P1023!'' = Some Cmd_Pdddd" by code_simp
lemma strip_frame_Q0: "strip_frame ''!Q    0!'' = ''!Q    0!''" by code_simp
lemma expect_Q0: "re_match (lit ''!Q'' @ num_field @ lit ''!'') ''!Q    0!'' = Some [''0'']" by code_simp
lemma py_float_0: "py_float ''0'' = Some 0" by code_simp

lemma query5_stuck:
  "query5 stuck s ''P1023!'' =
     (Inr (Some [''0'']),
      \<lparr>writes = Suc (writes s), trace = Sleep 0.75 # Write ''P1023!'' # trace s\<rparr>)"
proof -
  have d: "delay_of Cmd_Pdddd = 0.75" by (simp add: delay_of_def)
  show ?thesis
    using query_first_hit [where cmd = Cmd_Pdddd and dev = stuck and s = s
        and req = "''P1023!''" and maxtries = 5 and g = "''0''" and gs = "[]"
        and expect = "lit ''!Q'' @ num_field @ lit ''!''"]
    by (simp add: find_P1023 stuck_def steady_def strip_frame_Q0 expect_Q0 d)
qed

lemma set_PWM_loop_stuck_step:
  "count \<le> ntries \<Longrightarrow>
   set_PWM_loop stuck 100 ntries count False pwm s =
     set_PWM_loop stuck 100 ntries (count + 1) False (Some 0)
       \<lparr>writes = Suc (writes s),
        trace = Sleep 2 # Sleep 0.75 # Write ''P1023!'' # trace s\<rparr>"
  by (subst set_PWM_loop.simps) (simp add: send_string_100 query5_stuck py_float_0)

lemma set_PWM_loop_stuck:
  "count \<le> ntries + 1 \<Longrightarrow> count \<le> ntries \<or> pwm = Some 0 \<Longrightarrow>
   fst (set_PWM_loop stuck 100 ntries count False pwm s) = Inr (Some 0) \<and>
   writes (snd (set_PWM_loop stuck 100 ntries count False pwm s))
     = writes s + nat (ntries + 1 - count) \<and>
   trace (snd (set_PWM_loop stuck 100 ntries count False pwm s))
     = concat (replicate (nat (ntries + 1 - count)) [Sleep 2, Sleep 0.75, Write ''P1023!''])
       @ trace s"
proof (induction "nat (ntries + 1 - count)" arbitrary: count pwm s)
  case 0
  then have "ntries < count" and "pwm = Some 0" by auto
  then show ?case by (simp add: set_PWM_loop_stop)
next
  case (Suc n)
  then have le: "count \<le> ntries" by simp
  have n: "n = nat (ntries + 1 - (count + 1))" using Suc.hyps(2) by simp
  have step: "nat (ntries + 1 - count) = Suc (nat (ntries + 1 - (count + 1)))"
    using le by simp
  show ?case
    using Suc.hyps(1) [OF n, of "Some 0"] le step
      concat_replicate_comm [of "nat (ntries - count)" "[Sleep 2, Sleep 0.75, Write ''P1023!'']"]
    by (simp add: set_PWM_loop_stuck_step [OF le])
qed

text \<open>
  Claim C9: \<^verbatim>\<open>set_PWM(percent, max_tries=15)\<close> clamps \<^verbatim>\<open>percent\<close> into [0, 100], issues
  the set-PWM command and reads back the reported value, retries after a 2 s wait
  whenever the readback differs from the request by more than 5 percentage points, and
  terminates without raising after at most 15 attempts.

  The code does not keep the bound. The counter starts at 0 and the loop runs while
  \<^verbatim>\<open>count <= ntries\<close>: for a device that reports the PWM value 0 to every request, the
  request of 100 percent and \<^verbatim>\<open>ntries = m\<close>, the method issues the command \<open>m + 1\<close> times
  (16 times for the default 15), waits 2 s after each, and then returns with the last
  reported value, 0, in \<^verbatim>\<open>self.PWM\<close>.
\<close>

theorem set_PWM_stuck_attempts:
  "fst (set_PWM stuck 100 (int m) pwm s) = Inr (Some 0) \<and>
   writes (snd (set_PWM stuck 100 (int m) pwm s)) = writes s + (m + 1) \<and>
   trace (snd (set_PWM stuck 100 (int m) pwm s))
     = concat (replicate (m + 1) [Sleep 2, Sleep 0.75, Write ''P1023!'']) @ trace s"
proof -
  have m: "nat (int m + 1 - 0) = m + 1" by simp
  have c: "clamp_percent 100 = 100" by (simp add: clamp_percent_def)
  show ?thesis
    using set_PWM_loop_stuck [of 0 "int m" pwm s] unfolding m
    by (simp add: set_PWM_def c)
qed

section \<open>Properties of the heater table\<close>

lemma ceiling_neg_half: "\<lceil>- (1 / 2) :: real\<rceil> = 0"
  by (rule ceiling_unique) simp_all

lemma ceiling_neg_one: "\<lceil>- 1 :: real\<rceil> = - 1"
  by (rule ceiling_unique) simp_all

text \<open>
  What the method returns for a numeric rain sensor temperature \<open>t\<close>: every branch for
  a negative \<^verbatim>\<open>deltaT\<close> but the first is dead, the band around zero assigns nothing, and
  \<^verbatim>\<open>int\<close> cuts the two half steps to 0.
\<close>

lemma AAG_heater_algorithm_cases:
  "last_entry ''rain_sensor_temp_C'' = Some (Num t) \<Longrightarrow>
   AAG_heater_algorithm target last_entry =
     (if t - target > 8 then Inr (- 20)
      else if t - target > 4 then Inr (- 10)
      else if t - target > 3 then Inr (- 5)
      else if t - target > 2 then Inr (- 3)
      else if t - target > 1 then Inr (- 2)
      else if t - target > 0.5 then Inr (- 1)
      else if t - target > 0.3 then Inr 0
      else if t - target < - 0.3 then Inr 0
      else Inl UnboundLocalError)"
  by (simp add: AAG_heater_algorithm_def lookup_def heater_table_def trunc_def scaling_def
        ceiling_neg_half ceiling_neg_one)

text \<open>
  Claim C6: the heater lookup function equals the reference table for every real
  \<^verbatim>\<open>deltaT\<close>, the first matching band winning; in particular it is total, returning 0
  when \<^verbatim>\<open>-0.3 <= deltaT <= 0.3\<close>, and yields \<^verbatim>\<open>+40 * s\<close> (that is 20) for
  \<^verbatim>\<open>deltaT < -8\<close>.

  The code does neither. With the target at 20 degrees: a sensor at 20 degrees
  (\<^verbatim>\<open>deltaT = 0\<close>) makes the method raise \<^verbatim>\<open>UnboundLocalError\<close>, since no branch assigns
  \<^verbatim>\<open>deltaPWM\<close>; a sensor at 11 degrees (\<^verbatim>\<open>deltaT = -9\<close>) is caught by the branch
  \<^verbatim>\<open>deltaT < -0.3\<close>, which stands before the branches for the lower bands, and the
  method returns \<^verbatim>\<open>int(0.5)\<close>, which is 0, where the table says 20.
\<close>

theorem AAG_heater_algorithm_gaps:
  "AAG_heater_algorithm 20 (warm_entry 20) = Inl UnboundLocalError \<and>
   AAG_heater_algorithm 20 (warm_entry 11) = Inr 0"
  by (simp add: AAG_heater_algorithm_def warm_entry_def lookup_def heater_table_def
        trunc_def scaling_def)

section \<open>Properties of the safety decision\<close>

lemma trunc_simps [simp]:
  "trunc (of_int n) = n" "trunc 0 = 0" "trunc 1 = 1" "trunc (numeral k) = numeral k"
  "trunc (- numeral k) = - numeral k"
  by (simp_all add: trunc_def)

lemmas decision_defs = make_safety_decision_def find_sorted_def find_between_def
  sky_category_def wind_category_def rain_category_def
  field_values_def List.map_filter_def mavg_window_def movingaverage_def np_convolve_same_def
  conv_at_def lookup_def py_sub_def cloud_label_def
  wind_label_def gust_label_def default_cfg_def Let_def

lemmas example_defs = clear_entry_def clear_now_def wet_entry_def sky_only_entry_def
  ambient_only_entry_def

lemma py_min_Min: "py_min (x # xs) = Inr (Min (set (x # xs)))"
  using Min.set_eq_fold [of x xs] by simp

lemma py_max_Max: "py_max (x # xs) = Inr (Max (set (x # xs)))"
  using Max.set_eq_fold [of x xs] by simp

lemma rain_category_dry_override:
  assumes cur: "current_values ''rain_frequency'' = Some (Num rf)"
    and dry: "threshold_rain c < rf" "threshold_wet c < rf"
    and hist: "nums (field_values ''rain_frequency'' entries) = Inr (x # xs)"
    and low: "Min (set (x # xs)) \<le> threshold_rain c \<or> Min (set (x # xs)) \<le> threshold_wet c"
  shows "rain_category c entries current_values = Inr (False, ''Dry'')"
proof -
  have ne: "field_values ''rain_frequency'' entries \<noteq> []"
    using hist by auto
  have m: "py_min (x # xs) = Inr (Min (set (x # xs)))" by (rule py_min_Min)
  show ?thesis
    using cur dry ne low
    by (auto simp add: rain_category_def lookup_def hist m Let_def simp del: py_min.simps)
qed

text \<open>
  The sky category when the historical samples are as the filter expects them: unsafe
  with the label \<^verbatim>\<open>Unknown\<close> when there is no difference, else unsafe exactly when the
  maximum of the differences is above the threshold, with the label of the current
  sample.
\<close>

lemma sky_category_no_history:
  "sky_diff entries = Inr [] \<Longrightarrow>
   sky_category c entries current_values = Inr (False, ''Unknown'')"
  by (simp add: sky_category_def)

lemma sky_category_history:
  assumes "sky_diff entries = Inr (d # ds)"
    and "current_values ''sky_temp_C'' = Some (Num a)"
    and "current_values ''ambient_temp_C'' = Some (Num b)"
  shows "sky_category c entries current_values
           = Inr (\<not> Max (set (d # ds)) > threshold_very_cloudy c, cloud_label c (a - b))"
  using assms py_max_Max [of d ds]
  by (simp add: sky_category_def lookup_def py_sub_def Let_def del: py_max.simps)

text \<open>
  Claim C2: in the safety decision, \<^verbatim>\<open>sky_diff\<close> is computed for every historical
  sample that carries both temperatures, samples missing either field being skipped
  without error; with no such sample the sky is unsafe and \<^verbatim>\<open>Unknown\<close>; otherwise it is
  unsafe exactly when the maximum difference is above \<^verbatim>\<open>threshold_very_cloudy\<close>, and the
  label comes from the current sample.

  The code skips a sample without \<^verbatim>\<open>sky_temp_C\<close> only. A window whose one sample
  carries the ambient temperature alone gives the label \<^verbatim>\<open>Unknown\<close>, as claimed; a window
  whose one sample carries the sky temperature alone makes the whole decision raise
  \<^verbatim>\<open>KeyError\<close>.
\<close>

theorem sky_diff_KeyError:
  "sky_category default_cfg [ambient_only_entry] clear_now = Inr (False, ''Unknown'') \<and>
   sky_category default_cfg [sky_only_entry] clear_now = Inl KeyError \<and>
   make_safety_decision default_cfg [sky_only_entry] 120 clear_now = Inl KeyError"
  by (simp add: decision_defs example_defs)

text \<open>
  Claim C3: when the current sample's rain frequency classifies as dry (above both
  thresholds) but the minimum rain frequency over the historical window is at or
  below \<^verbatim>\<open>threshold_rain\<close> or \<^verbatim>\<open>threshold_wet\<close>, the flag \<^verbatim>\<open>rain_safe\<close> is false while the
  label stays \<^verbatim>\<open>Dry\<close>; the decision then returns the label \<^verbatim>\<open>Dry\<close> and is unsafe.
  Here \<open>entries\<close> is the window of the decision, \<open>x # xs\<close> its rain frequencies, and the
  sky and wind categories are taken to return.
\<close>

theorem rain_override_keeps_label:
  assumes window: "entries = find_sorted weather (end' - of_int (trunc (safety_delay c * 60))) end'"
    and cur: "current_values ''rain_frequency'' = Some (Num rf)"
    and dry: "threshold_rain c < rf" "threshold_wet c < rf"
    and hist: "nums (field_values ''rain_frequency'' entries) = Inr (x # xs)"
    and low: "Min (set (x # xs)) \<le> threshold_rain c \<or> Min (set (x # xs)) \<le> threshold_wet c"
    and sky: "sky_category c entries current_values = Inr (sky_safe, cloud_condition)"
    and wind: "wind_category c end' entries current_values
                 = Inr (wind_safe, wind_condition, gust_safe, gust_condition)"
  shows "rain_category c entries current_values = Inr (False, ''Dry'') \<and>
         make_safety_decision c weather end' current_values
           = Inr \<lparr>Safe = False, Sky = cloud_condition, Wind = wind_condition,
                  Gust = gust_condition, Rain = ''Dry''\<rparr>"
proof -
  have r: "rain_category c entries current_values = Inr (False, ''Dry'')"
    using cur dry hist low by (rule rain_category_dry_override)
  show ?thesis
    using r sky wind unfolding window by (simp add: make_safety_decision_def Let_def)
qed

theorem rain_override_keeps_label_witness:
  "rain_category default_cfg [wet_entry] clear_now = Inr (False, ''Dry'') \<and>
   make_safety_decision default_cfg [wet_entry] 120 clear_now
     = Inr \<lparr>Safe = False, Sky = ''Clear'', Wind = ''Calm'', Gust = ''Calm'', Rain = ''Dry''\<rparr>"
proof -
  have window: "[wet_entry] = find_sorted [wet_entry]
      (120 - of_int (trunc (safety_delay default_cfg * 60))) 120"
    by (simp add: decision_defs example_defs)
  have cur: "clear_now ''rain_frequency'' = Some (Num 2500)"
    by (simp add: clear_now_def)
  have dry: "threshold_rain default_cfg < 2500" "threshold_wet default_cfg < 2500"
    by (simp_all add: default_cfg_def)
  have hist: "nums (field_values ''rain_frequency'' [wet_entry]) = Inr [1500]"
    by (simp add: decision_defs example_defs)
  have low: "Min (set [1500]) \<le> threshold_rain default_cfg \<or>
             Min (set [1500]) \<le> threshold_wet default_cfg"
    by (simp add: default_cfg_def)
  have sky: "sky_category default_cfg [wet_entry] clear_now = Inr (True, ''Clear'')"
    by (simp add: decision_defs example_defs)
  have wind: "wind_category default_cfg 120 [wet_entry] clear_now
                = Inr (True, ''Calm'', True, ''Calm'')"
    by (simp add: decision_defs example_defs)
  show ?thesis
    using rain_override_keeps_label [OF window cur dry hist low sky wind] by simp
qed

text \<open>
  Claim C4: every per-category failure of the safety decision (a field absent from
  the current or the historical samples) is contained and surfaced as an absence or an
  \<^verbatim>\<open>Unknown\<close> condition; the decision never raises.

  The code contains an absence in the history only. With one historical sample that
  carries every field, the decision on a complete current sample returns, and the same
  decision raises \<^verbatim>\<open>KeyError\<close> when the current sample lacks the wind speed, the rain
  frequency or the sky temperature.
\<close>

theorem make_safety_decision_KeyError:
  "make_safety_decision default_cfg [clear_entry] 120 clear_now
     = Inr \<lparr>Safe = True, Sky = ''Clear'', Wind = ''Calm'', Gust = ''Calm'', Rain = ''Dry''\<rparr> \<and>
   make_safety_decision default_cfg [clear_entry] 120 (clear_now(''wind_speed_KPH'' := None))
     = Inl KeyError \<and>
   make_safety_decision default_cfg [clear_entry] 120 (clear_now(''rain_frequency'' := None))
     = Inl KeyError \<and>
   make_safety_decision default_cfg [clear_entry] 120 (clear_now(''sky_temp_C'' := None))
     = Inl KeyError"
  by (simp add: decision_defs example_defs)

section \<open>Properties of the heater controller\<close>

lemma do_set_PWM_mode:
  "impulse_heating (snd (do_set_PWM dev p st)) = impulse_heating st \<and>
   impulse_start (snd (do_set_PWM dev p st)) = impulse_start st"
  by (simp add: do_set_PWM_def split: prod.splits sum.splits)

lemma impulse_PWM_mode:
  "impulse_heating (snd (impulse_PWM dev hc last_entry st)) = impulse_heating st \<and>
   impulse_start (snd (impulse_PWM dev hc last_entry st)) = impulse_start st"
  by (simp add: impulse_PWM_def do_set_PWM_mode Let_def split: sum.splits)

lemma proportional_PWM_mode:
  "impulse_heating (snd (proportional_PWM dev recalc hc last_entry st)) = impulse_heating st \<and>
   impulse_start (snd (proportional_PWM dev recalc hc last_entry st)) = impulse_start st"
  by (simp add: proportional_PWM_def do_set_PWM_mode Let_def split: sum.splits prod.splits)

text \<open>Behind the gate, the mode after the method is the mode the decision block leaves.\<close>

lemma calculate_and_set_PWM_mode:
  assumes "current = last_entry # others"
    and "last_entry ''ambient_temp_C'' \<noteq> None" and "last_entry ''rain_sensor_temp_C'' \<noteq> None"
    and "impulse_decision hc now
           (field_values ''rain_safe''
              (find_between weather (now - of_int (trunc (impulse_cycle hc))) now)) st = Inr st1"
  shows "impulse_heating (snd (calculate_and_set_PWM dev recalc hc now weather current st))
           = impulse_heating st1 \<and>
         impulse_start (snd (calculate_and_set_PWM dev recalc hc now weather current st))
           = impulse_start st1"
  using assms
  by (auto simp add: calculate_and_set_PWM_def Let_def impulse_PWM_mode proportional_PWM_mode)

text \<open>
  The decision block raises nothing on a sensor object that has a start time whenever
  it is in impulse mode, and leaves such an object.
\<close>

lemma impulse_decision_invariant:
  assumes "impulse_heating st = Some True \<longrightarrow> impulse_start st \<noteq> None"
  shows "\<exists>st1. impulse_decision hc now flags st = Inr st1 \<and>
           (impulse_heating st1 = Some True \<longrightarrow> impulse_start st1 \<noteq> None)"
  using assms by (auto simp add: impulse_decision_def Let_def)

text \<open>
  Claim C5: the heater mode state machine, evaluated over the rain-safe flags of the
  last \<^verbatim>\<open>impulse_cycle\<close> seconds of history: with more than 3 flags and none of them
  safe, a proportional state becomes the impulse state with \<^verbatim>\<open>impulse_start = now\<close>; an
  impulse state stays until \<^verbatim>\<open>now - impulse_start\<close> exceeds \<^verbatim>\<open>impulse_duration\<close>, and then
  returns to proportional with \<^verbatim>\<open>impulse_start\<close> cleared; without the persistent rain
  signal the state is forced to proportional with \<^verbatim>\<open>impulse_start\<close> cleared.
  The state machine is evaluated when the latest sample carries the ambient and the
  rain sensor temperature; \<open>st'\<close> is the sensor object after \<^verbatim>\<open>calculate_and_set_PWM\<close>,
  whatever the heater step after the decision does.
\<close>

theorem heater_mode_transitions:
  assumes cur: "current = last_entry # others"
    and amb: "last_entry ''ambient_temp_C'' \<noteq> None"
    and rst: "last_entry ''rain_sensor_temp_C'' \<noteq> None"
    and flags: "flags = field_values ''rain_safe''
                  (find_between weather (now - of_int (trunc (impulse_cycle hc))) now)"
    and st': "st' = snd (calculate_and_set_PWM dev recalc hc now weather current st)"
  shows "(length flags > 3 \<and> \<not> np_any flags \<and> impulse_heating st \<noteq> Some True \<longrightarrow>
            impulse_heating st' = Some True \<and> impulse_start st' = Some now) \<and>
         (length flags > 3 \<and> \<not> np_any flags \<and> impulse_heating st = Some True \<and>
          impulse_start st = Some t0 \<and> \<not> now - t0 > impulse_duration hc \<longrightarrow>
            impulse_heating st' = Some True \<and> impulse_start st' = Some t0) \<and>
         (length flags > 3 \<and> \<not> np_any flags \<and> impulse_heating st = Some True \<and>
          impulse_start st = Some t0 \<and> now - t0 > impulse_duration hc \<longrightarrow>
            impulse_heating st' = Some False \<and> impulse_start st' = None) \<and>
         (\<not> (length flags > 3 \<and> \<not> np_any flags) \<longrightarrow>
            impulse_heating st' = Some False \<and> impulse_start st' = None)"
proof -
  have mode: "impulse_decision hc now flags st = Inr st1 \<Longrightarrow>
      impulse_heating st' = impulse_heating st1 \<and> impulse_start st' = impulse_start st1" for st1
    unfolding st' flags using cur amb rst by (rule calculate_and_set_PWM_mode)
  have a: "length flags > 3 \<and> \<not> np_any flags \<and> impulse_heating st \<noteq> Some True \<longrightarrow>
            impulse_heating st' = Some True \<and> impulse_start st' = Some now"
    using mode [of "st\<lparr>impulse_start := Some now, impulse_heating := Some True\<rparr>"]
    by (simp add: impulse_decision_def)
  have b: "length flags > 3 \<and> \<not> np_any flags \<and> impulse_heating st = Some True \<and>
          impulse_start st = Some t0 \<and> \<not> now - t0 > impulse_duration hc \<longrightarrow>
            impulse_heating st' = Some True \<and> impulse_start st' = Some t0"
    using mode [of st] by (simp add: impulse_decision_def)
  have c: "length flags > 3 \<and> \<not> np_any flags \<and> impulse_heating st = Some True \<and>
          impulse_start st = Some t0 \<and> now - t0 > impulse_duration hc \<longrightarrow>
            impulse_heating st' = Some False \<and> impulse_start st' = None"
    using mode [of "st\<lparr>impulse_heating := Some False, impulse_start := None\<rparr>"]
    by (simp add: impulse_decision_def)
  have d: "\<not> (length flags > 3 \<and> \<not> np_any flags) \<longrightarrow>
            impulse_heating st' = Some False \<and> impulse_start st' = None"
    using mode [of "st\<lparr>impulse_heating := Some False, impulse_start := None\<rparr>"]
    by (auto simp add: impulse_decision_def)
  show ?thesis using a b c d by blast
qed

theorem heater_mode_transitions_witness:
  "impulse_heating (snd (calculate_and_set_PWM silent no_PID default_heater_cfg 100
      rainy_weather [warm_entry 25] sensor0)) = Some True \<and>
   impulse_start (snd (calculate_and_set_PWM silent no_PID default_heater_cfg 100
      rainy_weather [warm_entry 25] sensor0)) = Some 100 \<and>
   impulse_heating (snd (calculate_and_set_PWM silent no_PID default_heater_cfg 100
      rainy_weather [warm_entry 25]
      (sensor0\<lparr>impulse_heating := Some True, impulse_start := Some 70\<rparr>))) = Some True \<and>
   impulse_start (snd (calculate_and_set_PWM silent no_PID default_heater_cfg 100
      rainy_weather [warm_entry 25]
      (sensor0\<lparr>impulse_heating := Some True, impulse_start := Some 70\<rparr>))) = Some 70 \<and>
   impulse_heating (snd (calculate_and_set_PWM silent no_PID default_heater_cfg 100
      rainy_weather [warm_entry 25]
      (sensor0\<lparr>impulse_heating := Some True, impulse_start := Some 30\<rparr>))) = Some False \<and>
   impulse_start (snd (calculate_and_set_PWM silent no_PID default_heater_cfg 100
      rainy_weather [warm_entry 25]
      (sensor0\<lparr>impulse_heating := Some True, impulse_start := Some 30\<rparr>))) = None \<and>
   impulse_heating (snd (calculate_and_set_PWM silent no_PID default_heater_cfg 100
      [] [warm_entry 25]
      (sensor0\<lparr>impulse_heating := Some True, impulse_start := Some 70\<rparr>))) = Some False \<and>
   impulse_start (snd (calculate_and_set_PWM silent no_PID default_heater_cfg 100
      [] [warm_entry 25]
      (sensor0\<lparr>impulse_heating := Some True, impulse_start := Some 70\<rparr>))) = None"
proof -
  have fl: "field_values ''rain_safe''
      (find_between rainy_weather (100 - of_int (trunc (impulse_cycle default_heater_cfg))) 100)
      = [Bool False, Bool False, Bool False, Bool False]"
    by (simp add: field_values_def List.map_filter_def find_between_def rainy_weather_def
          default_heater_cfg_def)
  have fl0: "field_values ''rain_safe''
      (find_between [] (100 - of_int (trunc (impulse_cycle default_heater_cfg))) 100) = []"
    by (simp add: field_values_def List.map_filter_def find_between_def)
  have amb: "warm_entry 25 ''ambient_temp_C'' \<noteq> None"
    and rst: "warm_entry 25 ''rain_sensor_temp_C'' \<noteq> None"
    by (simp_all add: warm_entry_def)
  have dur: "impulse_duration default_heater_cfg = 60"
    by (simp add: default_heater_cfg_def)
  note T = heater_mode_transitions [OF refl amb rst refl refl, where others = "[]"
      and dev = silent and recalc = no_PID and hc = default_heater_cfg and now = 100]
  show ?thesis
    using T [of rainy_weather sensor0 0]
      T [of rainy_weather "sensor0\<lparr>impulse_heating := Some True, impulse_start := Some 70\<rparr>" 70]
      T [of rainy_weather "sensor0\<lparr>impulse_heating := Some True, impulse_start := Some 30\<rparr>" 30]
      T [of "[]" "sensor0\<lparr>impulse_heating := Some True, impulse_start := Some 70\<rparr>" 70]
    unfolding fl fl0 dur
    by (simp add: np_any_def sensor0_def)
qed

section \<open>Properties of the measurement cycle\<close>

text \<open>Every dictionary that \<^verbatim>\<open>capture\<close> returns is \<open>typed\<close>.\<close>

lemma typed_put_num:
  "k \<in> set number_fields \<Longrightarrow> typed d \<Longrightarrow> typed (d(k \<mapsto> Num v))"
  by (auto simp add: typed_def number_fields_def)

lemma typed_put_rain:
  "typed d \<Longrightarrow> typed (d(''rain_sensor_temp_C'' \<mapsto> Str (fmt_02f v)))"
  by (auto simp add: typed_def number_fields_def)

lemma typed_put_other:
  "k \<notin> set number_fields \<Longrightarrow> k \<noteq> ''rain_sensor_temp_C'' \<Longrightarrow> typed d \<Longrightarrow> typed (d(k \<mapsto> v))"
  by (auto simp add: typed_def)

lemma typed_put_quantity:
  "put_quantity qb k Num r d = Inr d' \<Longrightarrow> k \<in> set number_fields \<Longrightarrow> typed d \<Longrightarrow> typed d'"
  by (auto simp add: put_quantity_def bind_err_def typed_put_num
        split: option.splits sum.splits if_splits)

lemma typed_put_quantity_rain:
  "put_quantity qb ''rain_sensor_temp_C'' (\<lambda>v. Str (fmt_02f v)) r d = Inr d' \<Longrightarrow>
   typed d \<Longrightarrow> typed d'"
  by (auto simp add: put_quantity_def bind_err_def typed_put_rain
        split: option.splits sum.splits if_splits)

lemma typed_put_float:
  "k \<in> set number_fields \<Longrightarrow> typed d \<Longrightarrow> typed (put_float k r d)"
  by (auto simp add: put_float_def typed_put_num split: option.splits)

lemma typed_ident:
  "typed [''weather_sensor_name'' \<mapsto> Str a, ''weather_sensor_firmware_version'' \<mapsto> Str b,
          ''weather_sensor_serial_number'' \<mapsto> Str c]"
  by (simp add: typed_def number_fields_def)

lemma bind_err_Inr:
  "bind_err r f = Inr y \<Longrightarrow> \<exists>x. r = Inr x \<and> f x = Inr y"
  by (cases r) simp_all

lemma read_all_typed:
  assumes "read_all dev qb idn st = (Inr d, st1)"
  shows "typed d"
proof -
  let ?d0 = "[''weather_sensor_name'' \<mapsto> Str (name idn),
              ''weather_sensor_firmware_version'' \<mapsto> Str (firmware_version idn),
              ''weather_sensor_serial_number'' \<mapsto> Str (serial_number idn)]"
  from assms obtain sky amb iv ldr rst rf pwm errs wind d1 d2 d3 d4 d5 where
    1: "put_quantity qb ''sky_temp_C'' Num sky ?d0 = Inr d1"
    and 2: "put_quantity qb ''ambient_temp_C'' Num amb d1 = Inr d2"
    and 3: "put_quantity qb ''internal_voltage_V'' Num iv d2 = Inr d3"
    and 4: "put_quantity qb ''ldr_resistance_Ohm'' Num ldr d3 = Inr d4"
    and 5: "put_quantity qb ''rain_sensor_temp_C'' (\<lambda>v. Str (fmt_02f v)) rst d4 = Inr d5"
    and 6: "put_quantity qb ''wind_speed_KPH'' Num wind
              ((put_float ''pwm_value'' pwm (put_float ''rain_frequency'' rf d5))
                 (''errors'' \<mapsto> errs)) = Inr d"
    by (auto simp add: read_all_def Let_def split: prod.splits sum.splits
          dest!: bind_err_Inr)
  have nf: "''sky_temp_C'' \<in> set number_fields" "''ambient_temp_C'' \<in> set number_fields"
    "''internal_voltage_V'' \<in> set number_fields" "''ldr_resistance_Ohm'' \<in> set number_fields"
    "''rain_frequency'' \<in> set number_fields" "''pwm_value'' \<in> set number_fields"
    "''wind_speed_KPH'' \<in> set number_fields" "''errors'' \<notin> set number_fields"
    by (simp_all add: number_fields_def)
  have "typed d1" using 1 nf typed_ident by (blast intro: typed_put_quantity)
  then have "typed d2" using 2 nf by (blast intro: typed_put_quantity)
  then have "typed d3" using 3 nf by (blast intro: typed_put_quantity)
  then have "typed d4" using 4 nf by (blast intro: typed_put_quantity)
  then have "typed d5" using 5 by (blast intro: typed_put_quantity_rain)
  then have "typed ((put_float ''pwm_value'' pwm (put_float ''rain_frequency'' rf d5))
                 (''errors'' \<mapsto> errs))"
    using nf by (intro typed_put_other typed_put_float) simp_all
  then show ?thesis using 6 nf by (blast intro: typed_put_quantity)
qed

lemma capture_typed:
  assumes "capture dev qb recalc c hc idn weather current t1 t2 st = (Inr d, st')"
  shows "typed d"
proof (cases "read_all dev qb idn st")
  case (Pair r st1)
  show ?thesis
  proof (cases r)
    case (Inl e)
    with Pair assms show ?thesis by (simp add: capture_def)
  next
    case (Inr d0)
    have t0: "typed d0" using Pair Inr by (blast intro: read_all_typed)
    show ?thesis
    proof (cases "make_safety_decision c weather t1 d0")
      case (Inl e)
      with Pair \<open>r = Inr d0\<close> assms show ?thesis by (simp add: capture_def)
    next
      case (Inr v)
      with Pair \<open>r = Inr d0\<close> assms
      have d: "d = d0(''safe'' \<mapsto> Bool (Safe v), ''sky_condition'' \<mapsto> Str (Sky v),
               ''wind_condition'' \<mapsto> Str (Wind v), ''gust_condition'' \<mapsto> Str (Gust v),
               ''rain_condition'' \<mapsto> Str (Rain v))"
        by (auto simp add: capture_def Let_def split: prod.splits sum.splits)
      show ?thesis unfolding d using t0
        by (intro typed_put_other) (simp_all add: number_fields_def)
    qed
  qed
qed

lemma impulse_PWM_text:
  "last_entry ''ambient_temp_C'' = Some (Num a) \<Longrightarrow>
   last_entry ''rain_sensor_temp_C'' = Some (Str s) \<Longrightarrow>
   impulse_PWM dev hc last_entry st = (Inl TypeError, st)"
  by (simp add: impulse_PWM_def lookup_def)

text \<open>The readings of the device \<open>thermo\<close>, whatever the state of the channel.\<close>

lemma collect_uniform:
  assumes "\<And>s. fst (f s) = r"
  shows "fst (collect f n s) = (case r of None \<Rightarrow> [] | Some v \<Rightarrow> replicate n v)"
proof (induction n arbitrary: s)
  case 0
  show ?case by (simp split: option.splits)
next
  case (Suc n)
  show ?case
    using assms [of s] Suc [of "snd (f s)"]
    by (simp add: split_beta split: option.splits)
qed

lemma find_S: "find_command commands ''!S'' = Some Cmd_S" by code_simp
lemma find_T: "find_command commands ''!T'' = Some Cmd_T" by code_simp
lemma find_C: "find_command commands ''!C'' = Some Cmd_C" by code_simp
lemma find_E: "find_command commands ''!E'' = Some Cmd_E" by code_simp
lemma find_Q: "find_command commands ''!Q'' = Some Cmd_Q" by code_simp
lemma find_D: "find_command commands ''!D'' = Some Cmd_D" by code_simp
lemma find_v: "find_command commands ''v!'' = Some Cmd_v" by code_simp
lemma find_V: "find_command commands ''V!'' = Some Cmd_V" by code_simp

lemma empty_S: "re_match (lit ''!1'' @ num_field @ lit ''!'') '''' = None" by code_simp
lemma empty_E: "re_match (lit ''!R'' @ num_field @ lit ''!'') '''' = None" by code_simp
lemma empty_Q: "re_match (lit ''!Q'' @ num_field @ lit ''!'') '''' = None" by code_simp
lemma empty_D: "re_match (lit ''!E1'' @ err_field @ lit ''!E2'' @ err_field @ lit ''!E3'' @ err_field
           @ lit ''!E4'' @ err_field @ lit ''!'') '''' = None" by code_simp
lemma empty_v: "re_match (lit ''!v'' @ num_field @ lit ''!'') '''' = None" by code_simp
lemma empty_w: "re_match (lit ''!w'' @ num_field @ lit ''!'') '''' = None" by code_simp

lemma strip_T: "strip_frame ''!2  2150!'' = ''!2  2150!''" by code_simp
lemma strip_C: "strip_frame ''!6  512!4  512!5  511.5!'' = ''!6  512!4  512!5  511.5!''" by code_simp
lemma match_T: "re_match (lit ''!2'' @ num_field @ lit ''!'') ''!2  2150!'' = Some [''2150'']" by code_simp
lemma match_C: "re_match (lit ''!6'' @ num_field @ lit ''!4'' @ num_field @ lit ''!5'' @ num_field @ lit ''!'')
   ''!6  512!4  512!5  511.5!'' = Some [''512'', ''512'', ''511.5'']" by code_simp

lemmas num_defs = py_float_def py_int_def is_digit_def digit_chars_def nat_of_digits_def
  digit_val_def fmt_02f_def fmt_04d_def round_half_even_def str_of_nat.simps digit_char_def
  send_string_def trunc_def Let_def

lemma float_2150: "py_float ''2150'' = Some 2150" by (simp add: num_defs)
lemma float_512: "py_float ''512'' = Some 512" by (simp add: num_defs)
lemma float_5115: "py_float ''511.5'' = Some 511.5" by (simp add: num_defs)
lemma fmt_25: "fmt_02f 25 = ''25.00''" by (simp add: num_defs)

text \<open>A request that the device \<open>thermo\<close> does not answer.\<close>

lemma thermo_silent:
  assumes "find_command commands req = Some cmd" and "expects cmd = Some e"
    and "re_match e '''' = None" and "req \<noteq> ''!T''" and "req \<noteq> ''!C''"
  shows "fst (query5 thermo s req) = Inr None"
proof -
  have "fst (query5 thermo s req) = Inr None \<and>
        writes (snd (query5 thermo s req)) = writes s + nat (5 + 1)"
    by (rule query_all_miss [where cmd = cmd and expect = e and ?k0.0 = 0])
       (use assms in \<open>simp_all add: thermo_def steady_def strip_frame_empty\<close>)
  then show ?thesis by simp
qed

lemma thermo_S: "fst (query5 thermo s ''!S'') = Inr None"
  by (rule thermo_silent [OF find_S _ empty_S]) simp_all
lemma thermo_E: "fst (query5 thermo s ''!E'') = Inr None"
  by (rule thermo_silent [OF find_E _ empty_E]) simp_all
lemma thermo_Q: "fst (query5 thermo s ''!Q'') = Inr None"
  by (rule thermo_silent [OF find_Q _ empty_Q]) simp_all
lemma thermo_D: "fst (query5 thermo s ''!D'') = Inr None"
  by (rule thermo_silent [OF find_D _ empty_D]) simp_all
lemma thermo_v: "fst (query5 thermo s ''v!'') = Inr None"
  by (rule thermo_silent [OF find_v _ empty_v]) simp_all

lemma thermo_T: "fst (query5 thermo s ''!T'') = Inr (Some [''2150''])"
  using query_first_hit [where cmd = Cmd_T and dev = thermo and s = s and req = "''!T''"
      and maxtries = 5 and g = "''2150''" and gs = "[]"
      and expect = "lit ''!2'' @ num_field @ lit ''!''"]
  by (simp add: find_T thermo_def steady_def strip_T match_T)

lemma thermo_C: "fst (query5 thermo s ''!C'') = Inr (Some [''512'', ''512'', ''511.5''])"
  using query_first_hit [where cmd = Cmd_C and dev = thermo and s = s and req = "''!C''"
      and maxtries = 5 and g = "''512''" and gs = "[''512'', ''511.5'']"
      and expect = "lit ''!6'' @ num_field @ lit ''!4'' @ num_field @ lit ''!5'' @ num_field @ lit ''!''"]
  by (simp add: find_C thermo_def steady_def strip_C match_C)

lemma thermo_sky: "fst (get_sky_temperature thermo 9 s) = Inr None"
proof -
  have "fst (sky_attempt thermo s') = None" for s'
    using thermo_S [of s'] by (simp add: sky_attempt_def query_float_def split_beta split: prod.splits)
  then have "fst (collect (sky_attempt thermo) 9 s) = []"
    using collect_uniform [of "sky_attempt thermo" None 9 s] by simp
  then show ?thesis
    by (simp add: get_sky_temperature_def split_beta median_if_def)
qed


lemma np_median_5: "np_median [x, x, x, x, x] = x"
  by (simp add: np_median_def)

lemma thermo_ambient: "fst (get_ambient_temperature thermo 5 s) = Inr (Some 21.5)"
proof -
  have "fst (ambient_attempt thermo s') = Some 21.5" for s'
    using thermo_T [of s']
    by (simp add: ambient_attempt_def query_float_def split_beta float_2150 split: prod.splits)
  then have "fst (collect (ambient_attempt thermo) 5 s) = replicate 5 21.5"
    using collect_uniform [of "ambient_attempt thermo" "Some 21.5" 5 s] by simp
  then show ?thesis
    by (simp add: get_ambient_temperature_def split_beta median_if_def eval_nat_numeral
          np_median_5)
qed

lemma thermo_rain: "fst (get_rain_frequency thermo 5 s) = Inr None"
proof -
  have "fst (query_float thermo ''!E'' s') = None" for s'
    using thermo_E [of s'] by (simp add: query_float_def split_beta split: prod.splits)
  then have "fst (collect (query_float thermo ''!E'') 5 s) = []"
    using collect_uniform [of "query_float thermo ''!E''" None 5 s] by simp
  then show ?thesis
    by (simp add: get_rain_frequency_def split_beta median_if_def)
qed

lemma thermo_PWM: "fst (get_PWM thermo s) = None"
  using thermo_Q [of s] by (simp add: get_PWM_def query_float_def split_beta split: prod.splits)

lemma thermo_errors:
  "fst (get_errors thermo s) = Inr (Dict [(''error_1'', PyNone), (''error_2'', PyNone),
                             (''error_3'', PyNone), (''error_4'', PyNone)])"
  using thermo_D [of s] by (simp add: get_errors_def error_keys_def split_beta split: prod.splits)

lemma thermo_wind: "fst (get_wind_speed thermo 3 s) = Inr None"
  using thermo_v [of s]
  by (simp add: get_wind_speed_def wind_speed_enabled_def split_beta split: prod.splits)

lemma thermo_attempt:
  "values_attempt (Some [''512'', ''512'', ''511.5''])
     = Inr (Some (3069 / 512), Some (28672 / 511), Some 25)"
  by (simp add: values_attempt_def conv_voltage_def conv_ldr_def conv_rain_def float_512
        float_5115 Let_def)

lemma values_loop_uniform:
  assumes "\<And>s. fst (query5 dev s ''!C'') = Inr r"
    and "values_attempt r = Inr (Some v, Some l, Some t)"
  shows "fst (values_loop dev n s) = Inr (replicate n v, replicate n l, replicate n t)"
proof (induction n arbitrary: s)
  case 0
  show ?case by simp
next
  case (Suc n)
  show ?case
    using assms(1) [of s] assms(2) Suc [of "snd (query5 dev s ''!C'')"]
    by (simp add: split_beta push_def split: sum.splits)
qed

lemma thermo_values:
  "fst (get_values thermo 5 s) = Inr (Some (3069 / 512), Some (28672 / 511), Some 25)"
  using values_loop_uniform [of thermo "Some [''512'', ''512'', ''511.5'']" _ _ _ 5 s,
      OF thermo_C thermo_attempt]
  by (simp add: get_values_def split_beta median_if_def eval_nat_numeral np_median_5
        split: sum.splits)

lemma thermo_read_all:
  "fst (read_all thermo always_true ident0 st) =
     Inr [''weather_sensor_name'' \<mapsto> Str ''CloudWatcher'',
      ''weather_sensor_firmware_version'' \<mapsto> Str ''5.6'',
      ''weather_sensor_serial_number'' \<mapsto> Str ''0905'',
      ''ambient_temp_C'' \<mapsto> Num 21.5,
      ''internal_voltage_V'' \<mapsto> Num (3069 / 512),
      ''ldr_resistance_Ohm'' \<mapsto> Num (28672 / 511),
      ''rain_sensor_temp_C'' \<mapsto> Str ''25.00'',
      ''errors'' \<mapsto> Dict [(''error_1'', PyNone), (''error_2'', PyNone),
                             (''error_3'', PyNone), (''error_4'', PyNone)]]"
  by (simp add: read_all_def split_beta Let_def thermo_sky thermo_ambient thermo_values
        thermo_rain thermo_PWM thermo_errors thermo_wind put_quantity_def put_float_def
        always_true_def ident0_def fmt_25 split: sum.splits)

lemma decision_empty_store:
  "make_safety_decision c [] t d =
     Inr \<lparr>Safe = False, Sky = ''Unknown'', Wind = ''Unknown'', Gust = ''Unknown'',
          Rain = ''Unknown''\<rparr>"
  by (simp add: decision_defs)

lemma heater_gate:
  "last_entry ''ambient_temp_C'' = None \<Longrightarrow>
   calculate_and_set_PWM dev recalc hc now weather (last_entry # others) st = (Inr (), st)"
  by (simp add: calculate_and_set_PWM_def Let_def)

lemma thermo_capture:
  "fst (capture thermo always_true no_PID default_cfg default_heater_cfg ident0 []
          [Map.empty] 0 0 sensor0) = Inr thermo_sample"
  using thermo_read_all [of sensor0]
  by (simp add: capture_def split_beta decision_empty_store heater_gate thermo_sample_def
        split: sum.splits)

lemma calculate_and_set_PWM_text:
  assumes "last_entry ''ambient_temp_C'' = Some (Num a)"
    and "last_entry ''rain_sensor_temp_C'' = Some (Str s)"
    and "impulse_decision hc now
           (field_values ''rain_safe''
              (find_between weather (now - of_int (trunc (impulse_cycle hc))) now)) st = Inr st1"
    and "impulse_heating st1 = Some True"
  shows "calculate_and_set_PWM dev recalc hc now weather (last_entry # others) st
           = (Inl TypeError, st1)"
  using assms by (simp add: calculate_and_set_PWM_def Let_def impulse_PWM_text)

text \<open>
  Claim C10: in every sample dictionary that \<^verbatim>\<open>capture\<close> produces, the field
  \<^verbatim>\<open>rain_sensor_temp_C\<close>, when present, is a text with two decimals, while every other
  measured quantity (the fields \<open>number_fields\<close>) is a number; so, when such a sample
  with both temperatures is the latest entry, the impulse branch of
  \<^verbatim>\<open>calculate_and_set_PWM\<close> compares a text with a float and raises \<^verbatim>\<open>TypeError\<close>
  instead of setting a heater power. The impulse branch is the one taken when the
  decision block leaves the sensor object \<open>sb\<close> in impulse mode.
\<close>

theorem rain_sensor_temp_is_text:
  assumes "capture dev qb recalc c hc idn weather current t1 t2 st = (Inr d, st')"
  shows "(\<forall>v. d ''rain_sensor_temp_C'' = Some v \<longrightarrow> (\<exists>x. v = Str (fmt_02f x))) \<and>
         (\<forall>k v. k \<in> set number_fields \<and> d k = Some v \<longrightarrow> (\<exists>x. v = Num x)) \<and>
         (\<forall>dev' recalc' hc' now weather' others sa sb.
            d ''ambient_temp_C'' \<noteq> None \<and> d ''rain_sensor_temp_C'' \<noteq> None \<and>
            impulse_decision hc' now
              (field_values ''rain_safe''
                 (find_between weather' (now - of_int (trunc (impulse_cycle hc'))) now)) sa
              = Inr sb \<and>
            impulse_heating sb = Some True \<longrightarrow>
            calculate_and_set_PWM dev' recalc' hc' now weather' (d # others) sa
              = (Inl TypeError, sb))"
proof -
  have t: "typed d" using assms by (rule capture_typed)
  have a: "\<forall>v. d ''rain_sensor_temp_C'' = Some v \<longrightarrow> (\<exists>x. v = Str (fmt_02f x))"
    using t by (simp add: typed_def)
  have b: "\<forall>k v. k \<in> set number_fields \<and> d k = Some v \<longrightarrow> (\<exists>x. v = Num x)"
    using t by (simp add: typed_def)
  have amb: "''ambient_temp_C'' \<in> set number_fields" by (simp add: number_fields_def)
  have c: "calculate_and_set_PWM dev' recalc' hc' now weather' (d # others) sa
              = (Inl TypeError, sb)"
    if "d ''ambient_temp_C'' \<noteq> None" "d ''rain_sensor_temp_C'' \<noteq> None"
      "impulse_decision hc' now
              (field_values ''rain_safe''
                 (find_between weather' (now - of_int (trunc (impulse_cycle hc'))) now)) sa
              = Inr sb" "impulse_heating sb = Some True"
    for dev' :: device and recalc' :: "'q recalculate" and hc' now weather' others
      and sa sb :: "'q sensor"
  proof -
    from that(1) b amb obtain x where x: "d ''ambient_temp_C'' = Some (Num x)" by blast
    from that(2) a obtain y where y: "d ''rain_sensor_temp_C'' = Some (Str (fmt_02f y))"
      by blast
    show ?thesis using x y that(3,4) by (rule calculate_and_set_PWM_text)
  qed
  show ?thesis using a b c by blast
qed


lemma rainy_flags:
  "field_values ''rain_safe''
      (find_between rainy_weather (100 - of_int (trunc (impulse_cycle default_heater_cfg))) 100)
      = [Bool False, Bool False, Bool False, Bool False]"
  by (simp add: field_values_def List.map_filter_def find_between_def rainy_weather_def
        default_heater_cfg_def)

theorem rain_sensor_temp_is_text_witness:
  "fst (capture thermo always_true no_PID default_cfg default_heater_cfg ident0 []
          [Map.empty] 0 0 sensor0) = Inr thermo_sample \<and>
   thermo_sample ''rain_sensor_temp_C'' = Some (Str ''25.00'') \<and>
   thermo_sample ''ambient_temp_C'' = Some (Num 21.5) \<and>
   calculate_and_set_PWM silent no_PID default_heater_cfg 100 rainy_weather [thermo_sample]
     sensor0
     = (Inl TypeError, sensor0\<lparr>impulse_start := Some 100, impulse_heating := Some True\<rparr>)"
proof -
  let ?run = "capture thermo always_true no_PID default_cfg default_heater_cfg ident0 []
          [Map.empty] 0 0 sensor0"
  have cap: "?run = (Inr thermo_sample, snd ?run)"
    using thermo_capture by (simp add: prod_eq_iff)
  have rst: "thermo_sample ''rain_sensor_temp_C'' = Some (Str ''25.00'')"
    and amb: "thermo_sample ''ambient_temp_C'' = Some (Num 21.5)"
    by (simp_all add: thermo_sample_def)
  have dec: "impulse_decision default_heater_cfg 100
      (field_values ''rain_safe''
        (find_between rainy_weather (100 - of_int (trunc (impulse_cycle default_heater_cfg))) 100))
      sensor0
      = Inr (sensor0\<lparr>impulse_start := Some 100, impulse_heating := Some True\<rparr>)"
    unfolding rainy_flags by (simp add: impulse_decision_def np_any_def sensor0_def)
  have mode: "impulse_heating (sensor0\<lparr>impulse_start := Some 100, impulse_heating := Some True\<rparr>)
      = Some True"
    by simp
  from rain_sensor_temp_is_text [OF cap]
  have "\<forall>dev' recalc' hc' now weather' others sa sb.
            thermo_sample ''ambient_temp_C'' \<noteq> None \<and>
            thermo_sample ''rain_sensor_temp_C'' \<noteq> None \<and>
            impulse_decision hc' now
              (field_values ''rain_safe''
                 (find_between weather' (now - of_int (trunc (impulse_cycle hc'))) now)) sa
              = Inr sb \<and>
            impulse_heating sb = Some True \<longrightarrow>
            calculate_and_set_PWM dev' (recalc' :: unit recalculate) hc' now weather'
                (thermo_sample # others) sa
              = (Inl TypeError, sb)"
    by blast
  then have "calculate_and_set_PWM silent no_PID default_heater_cfg 100 rainy_weather
      [thermo_sample] sensor0
     = (Inl TypeError, sensor0\<lparr>impulse_start := Some 100, impulse_heating := Some True\<rparr>)"
    using rst amb dec mode by blast
  then show ?thesis using thermo_capture rst amb by simp
qed

section \<open>Properties of the aggregated readings\<close>

text \<open>
  The policy of the aggregated readings, on the values the attempts have collected:
  the threshold is \<open>n - 1\<close> for the temperatures and the rain frequency, and the
  literal 3 for the wind speed. No more than \<open>n\<close> values are collected.
\<close>

lemma collect_length: "length (fst (collect f n s)) \<le> n"
proof (induction n arbitrary: s)
  case 0
  show ?case by simp
next
  case (Suc n)
  show ?case
    using Suc [of "snd (f s)"] by (simp add: split_beta split: option.splits)
qed

lemma get_ambient_temperature_policy:
  assumes "2 \<le> n" and "fst (collect (ambient_attempt dev) n s) = values"
  shows "fst (get_ambient_temperature dev n s)
           = (if n - 1 \<le> length values then Inr (Some (np_median values)) else Inr None)"
  using assms by (auto simp add: get_ambient_temperature_def median_if_def split_beta)

lemma get_sky_temperature_policy:
  assumes "2 \<le> n" and "fst (collect (sky_attempt dev) n s) = values"
  shows "fst (get_sky_temperature dev n s)
           = (if n - 1 \<le> length values then Inr (Some (np_median values)) else Inr None)"
  using assms by (auto simp add: get_sky_temperature_def median_if_def split_beta)

lemma get_rain_frequency_policy:
  assumes "2 \<le> n" and "fst (collect (query_float dev ''!E'') n s) = values"
  shows "fst (get_rain_frequency dev n s)
           = (if n - 1 \<le> length values then Inr (Some (np_median values)) else Inr None)"
  using assms by (auto simp add: get_rain_frequency_def median_if_def split_beta)

lemma get_wind_speed_policy:
  assumes "wind_speed_enabled dev s = (Some True, s1)"
    and "wind_loop dev n s1 = (Inr values, s2)"
  shows "fst (get_wind_speed dev n s)
           = (if 3 \<le> length values then Inr (Some (np_median values)) else Inr None)"
  using assms by (auto simp add: get_wind_speed_def median_if_def)

text \<open>The readings of the device \<open>flaky\<close>.\<close>

lemma match_v1: "re_match (lit ''!v'' @ num_field @ lit ''!'') ''!v 1!'' = Some [''1'']"
  by (simp add: rx_defs)
lemma match_w10: "re_match (lit ''!w'' @ num_field @ lit ''!'') ''!w 10!'' = Some [''10'']"
  by (simp add: rx_defs)
lemma match_w12: "re_match (lit ''!w'' @ num_field @ lit ''!'') ''!w 12!'' = Some [''12'']"
  by (simp add: rx_defs)
lemma match_T1000: "re_match (lit ''!2'' @ num_field @ lit ''!'') ''!2 1000!'' = Some [''1000'']"
  by (simp add: rx_defs)
lemma match_T1200: "re_match (lit ''!2'' @ num_field @ lit ''!'') ''!2 1200!'' = Some [''1200'']"
  by (simp add: rx_defs)
lemma strip_short:
  "strip_frame ''!v 1!'' = ''!v 1!''" "strip_frame ''!w 10!'' = ''!w 10!''"
  "strip_frame ''!w 12!'' = ''!w 12!''" "strip_frame ''!2 1000!'' = ''!2 1000!''"
  "strip_frame ''!2 1200!'' = ''!2 1200!''"
  by (simp_all add: rx_defs)
lemma float_small:
  "py_float ''10'' = Some 10" "py_float ''12'' = Some 12"
  "py_float ''1000'' = Some 1000" "py_float ''1200'' = Some 1200"
  by (simp_all add: num_defs)

lemma flaky_enabled:
  "wind_speed_enabled flaky io0 = (Some True, \<lparr>writes = 1, trace = [Sleep 0.2, Write ''v!'']\<rparr>)"
  using query_first_hit [where cmd = Cmd_v and dev = flaky and s = io0 and req = "''v!''"
      and maxtries = 5 and g = "''1''" and gs = "[]"
      and expect = "lit ''!v'' @ num_field @ lit ''!''"]
  by (simp add: wind_speed_enabled_def find_v flaky_def strip_short match_v1 io0_def
        delay_of_def)

lemma flaky_V1:
  "writes s = 1 \<Longrightarrow> query5 flaky s ''V!'' =
     (Inr (Some [''10'']), \<lparr>writes = 2, trace = Sleep 0.2 # Write ''V!'' # trace s\<rparr>)"
  using query_first_hit [where cmd = Cmd_V and dev = flaky and s = s and req = "''V!''"
      and maxtries = 5 and g = "''10''" and gs = "[]"
      and expect = "lit ''!w'' @ num_field @ lit ''!''"]
  by (simp add: find_V flaky_def strip_short match_w10 delay_of_def)

lemma flaky_V2:
  "writes s = 2 \<Longrightarrow> query5 flaky s ''V!'' =
     (Inr (Some [''12'']), \<lparr>writes = 3, trace = Sleep 0.2 # Write ''V!'' # trace s\<rparr>)"
  using query_first_hit [where cmd = Cmd_V and dev = flaky and s = s and req = "''V!''"
      and maxtries = 5 and g = "''12''" and gs = "[]"
      and expect = "lit ''!w'' @ num_field @ lit ''!''"]
  by (simp add: find_V flaky_def strip_short match_w12 delay_of_def)

lemma flaky_V3:
  assumes "3 \<le> writes s"
  shows "fst (query5 flaky s ''V!'') = Inr None"
proof -
  have "fst (query5 flaky s ''V!'') = Inr None \<and>
        writes (snd (query5 flaky s ''V!'')) = writes s + nat (5 + 1)"
    by (rule query_all_miss [where cmd = Cmd_V and expect = "lit ''!w'' @ num_field @ lit ''!''"
          and ?k0.0 = 3])
       (use assms in \<open>simp_all add: find_V flaky_def strip_frame_empty empty_w\<close>)
  then show ?thesis by simp
qed

lemma flaky_wind_loop:
  "fst (wind_loop flaky 3 \<lparr>writes = 1, trace = [Sleep 0.2, Write ''v!'']\<rparr>) = Inr [10, 12]"
  by (simp add: eval_nat_numeral flaky_V1 flaky_V2 flaky_V3 float_small split_beta
        split: sum.splits)

lemma flaky_T0:
  "writes s = 0 \<Longrightarrow> query5 flaky s ''!T'' =
     (Inr (Some [''1000'']), \<lparr>writes = 1, trace = Sleep 0.2 # Write ''!T'' # trace s\<rparr>)"
  using query_first_hit [where cmd = Cmd_T and dev = flaky and s = s and req = "''!T''"
      and maxtries = 5 and g = "''1000''" and gs = "[]"
      and expect = "lit ''!2'' @ num_field @ lit ''!''"]
  by (simp add: find_T flaky_def strip_short match_T1000 delay_of_def)

lemma flaky_T1:
  "writes s = 1 \<Longrightarrow> query5 flaky s ''!T'' =
     (Inr (Some [''1200'']), \<lparr>writes = 2, trace = Sleep 0.2 # Write ''!T'' # trace s\<rparr>)"
  using query_first_hit [where cmd = Cmd_T and dev = flaky and s = s and req = "''!T''"
      and maxtries = 5 and g = "''1200''" and gs = "[]"
      and expect = "lit ''!2'' @ num_field @ lit ''!''"]
  by (simp add: find_T flaky_def strip_short match_T1200 delay_of_def)

lemma empty_T: "re_match (lit ''!2'' @ num_field @ lit ''!'') '''' = None" by (simp add: rx_defs)

lemma flaky_T2:
  assumes "2 \<le> writes s"
  shows "fst (query5 flaky s ''!T'') = Inr None"
proof -
  have "fst (query5 flaky s ''!T'') = Inr None \<and>
        writes (snd (query5 flaky s ''!T'')) = writes s + nat (5 + 1)"
    by (rule query_all_miss [where cmd = Cmd_T and expect = "lit ''!2'' @ num_field @ lit ''!''"
          and ?k0.0 = 2])
       (use assms in \<open>simp_all add: find_T flaky_def strip_frame_empty empty_T\<close>)
  then show ?thesis by simp
qed

lemma flaky_collect:
  "fst (collect (ambient_attempt flaky) 3 io0) = [10, 12]"
  by (simp add: eval_nat_numeral ambient_attempt_def query_float_def io0_def
        flaky_T0 flaky_T1 flaky_T2 float_small split_beta split: sum.splits prod.splits)

text \<open>
  Claim C1: every aggregated reading with its repeat count \<open>n\<close> (5 for most
  quantities, 9 for the sky temperature, 3 for the wind speed) is the median of the
  collected values when at least \<open>n - 1\<close> of the \<open>n\<close> attempts yield a value, and is
  absent otherwise; in particular, for the wind speed one failed attempt out of three
  is tolerated.

  The code tolerates no failed attempt for the wind speed: its test is
  \<^verbatim>\<open>len(values) >= 3\<close>, where every other reading has \<^verbatim>\<open>len(values) >= n - 1\<close>. On a
  device that answers two of three attempts, the ambient temperature read with
  \<open>n = 3\<close> is the median 11 of the two values 10 and 12, and the wind speed, whose loop
  collects the two values 10 and 12, is absent.
\<close>

theorem wind_speed_needs_all_three:
  "fst (get_ambient_temperature flaky 3 io0) = Inr (Some 11) \<and>
   fst (wind_loop flaky 3 (snd (wind_speed_enabled flaky io0))) = Inr [10, 12] \<and>
   fst (get_wind_speed flaky 3 io0) = Inr None"
  using flaky_collect flaky_wind_loop
  by (simp add: get_ambient_temperature_def get_wind_speed_def flaky_enabled split_beta
        median_if_def np_median_def)

end
